theory Spec2Isabelle
  imports Main "HOL-Library.Sublist"
begin

section \<open>Workspace provisioning and lifecycle (src/lib/docker.ts)\<close>

text \<open>
  The development embeds \<^verbatim>\<open>src/lib/docker.ts\<close> (its first, current version), the
  create-workspace route and the readiness route. Every \<^verbatim>\<open>await docker...\<close> of the
  source is a request to a container runtime the program does not contain; the runtime is
  modelled as an explicit world that is passed through every call, with a log of the
  requests in the order the program issues them. Exceptions are values: a computation
  returns \<open>Inl error\<close> where the source throws.
\<close>

subsection \<open>JavaScript strings\<close>

text \<open>
  A JavaScript value used as a condition is true unless it is \<^verbatim>\<open>undefined\<close>,
  \<^verbatim>\<open>null\<close> or the empty string; optional strings are \<open>string option\<close>.
\<close>

definition truthy :: "string option \<Rightarrow> bool" where
  "truthy v = (case v of None \<Rightarrow> False | Some s \<Rightarrow> s \<noteq> [])"

text \<open>\<^verbatim>\<open>a || b\<close> on an optional string.\<close>

definition or_default :: "string option \<Rightarrow> string \<Rightarrow> string" where
  "or_default v d = (case v of None \<Rightarrow> d | Some s \<Rightarrow> if s = [] then d else s)"

text \<open>\<^verbatim>\<open>toLowerCase\<close> on the ASCII letters.\<close>

definition lower_char :: "char \<Rightarrow> char" where
  "lower_char c =
     (if 65 \<le> (of_char c :: nat) \<and> (of_char c :: nat) \<le> 90
      then char_of ((of_char c :: nat) + 32) else c)"

definition toLowerCase :: "string \<Rightarrow> string" where
  "toLowerCase s = map lower_char s"

text \<open>
  \<^verbatim>\<open>s.replace(pattern, replacement)\<close> with a string pattern: the first occurrence of
  the pattern, wherever it stands, is replaced; in the replacement \<^verbatim>\<open>$$\<close> is a
  dollar sign, \<^verbatim>\<open>$&\<close> the matched text, \<^verbatim>\<open>$`\<close> the text before the match and
  \<^verbatim>\<open>$'\<close> the text after it (a string pattern has no capture groups, so \<^verbatim>\<open>$1\<close>
  stays as written).
\<close>

fun split_at_first :: "string \<Rightarrow> string \<Rightarrow> (string \<times> string) option" where
  "split_at_first pat [] = (if pat = [] then Some ([], []) else None)"
| "split_at_first pat (c # cs) =
     (if prefix pat (c # cs) then Some ([], drop (length pat) (c # cs))
      else (case split_at_first pat cs of
              None \<Rightarrow> None
            | Some (b, a) \<Rightarrow> Some (c # b, a)))"

fun get_substitution :: "string \<Rightarrow> string \<Rightarrow> string \<Rightarrow> string \<Rightarrow> string" where
  "get_substitution m b a [] = []"
| "get_substitution m b a [c] = [c]"
| "get_substitution m b a (c # d # r) =
     (if c = CHR ''$'' \<and> d = CHR ''$'' then CHR ''$'' # get_substitution m b a r
      else if c = CHR ''$'' \<and> d = CHR ''&'' then m @ get_substitution m b a r
      else if c = CHR ''$'' \<and> d = CHR 0x60 then b @ get_substitution m b a r
      else if c = CHR ''$'' \<and> d = CHR 0x27 then a @ get_substitution m b a r
      else c # get_substitution m b a (d # r))"

definition js_replace :: "string \<Rightarrow> string \<Rightarrow> string \<Rightarrow> string" where
  "js_replace pat repl s =
     (case split_at_first pat s of
        None \<Rightarrow> s
      | Some (b, a) \<Rightarrow> b @ get_substitution pat b a repl @ a)"

subsection \<open>The clone URL (docker.ts, lines 72 to 75)\<close>

definition repoUrl :: "string option \<Rightarrow> string \<Rightarrow> string" where
  "repoUrl githubToken githubRepo =
     (if truthy githubToken
      then js_replace ''https://'' (''https://'' @ the githubToken @ ''@'') githubRepo
      else githubRepo)"

text \<open>The clone URL as the claim words it: only a leading \<^verbatim>\<open>https://\<close> is rewritten.\<close>

definition repoUrl_leading_only :: "string option \<Rightarrow> string \<Rightarrow> string" where
  "repoUrl_leading_only githubToken githubRepo =
     (if truthy githubToken \<and> prefix ''https://'' githubRepo
      then ''https://'' @ the githubToken @ ''@'' @ drop 8 githubRepo
      else githubRepo)"

subsection \<open>The world: container runtime and record store\<close>

datatype status = Pending | Starting | Running | Stopped | Error

text \<open>
  The requests the program sends, in the vocabulary of the source: one constructor for
  each method of the runtime client (and of the record store) that the source calls.
  \<open>RemoveContainer n True\<close> is \<^verbatim>\<open>remove({ force: true })\<close>.
\<close>

datatype request =
    ListImages string
  | PullImage string
  | CreateVolume string
  | CreateNetwork string
  | CreateContainer string
  | StartContainer string
  | WaitContainer string
  | LogsContainer string
  | StopContainer string
  | RemoveContainer string bool
  | ConnectNetwork string string
  | RemoveNetwork string
  | RemoveVolume string
  | FindSkills
  | FindProviders
  | WorkspaceCreate status
  | WorkspaceUpdate string status

datatype error =
    Unreachable request
  | NotFound string
  | Conflict string
  | InUse string
  | NotModified string
  | PullProgress string
  | CloneFailed int

text \<open>The argument of \<^verbatim>\<open>docker.createContainer\<close>, and the container it makes.\<close>

record container =
  c_name :: string
  c_image :: string
  c_user :: "string option"
  c_entrypoint :: "string list"
  c_cmd :: "string list"
  c_env :: "string list"
  c_ports :: "string list"
  c_binds :: "(string \<times> string) list"
  c_networks :: "string list"
  c_restart :: "string option"
  c_memory :: "nat option"
  c_nanocpus :: "nat option"
  c_labels :: "(string \<times> string) list"
  c_running :: bool

record world =
  containers :: "container list"
  networks :: "string list"
  volumes :: "(string \<times> (string \<times> string) list) list"
  images :: "string list"
  in_flight :: "string list"
  records :: "(string \<times> status) list"
  calls :: "request list"

text \<open>Rows of the record store that provisioning reads.\<close>

record llm_model =
  m_modelId :: string
  m_isDefault :: bool
  m_isEnabled :: bool

record provider =
  p_userId :: string
  p_providerId :: string
  p_isEnabled :: bool
  p_isDefault :: bool
  p_baseUrl :: "string option"
  p_envVarName :: "string option"
  p_apiKey :: "string option"
  p_headers :: "(string \<times> string) list option"
  p_models :: "llm_model list"

record skill =
  s_userId :: string
  s_name :: string
  s_content :: string

text \<open>The agent configuration object \<^verbatim>\<open>opencodeConfig\<close>.\<close>

record provider_options =
  o_baseURL :: "string option"
  o_apiKey :: "string option"
  o_headers :: "(string \<times> string) list option"

record opencode_config =
  cfg_schema :: string
  cfg_provider :: "(string \<times> provider_options) list"
  cfg_enabled_providers :: "string list"
  cfg_disabled_providers :: "string list"
  cfg_model :: "string option"

text \<open>
  What the program cannot decide: which requests the runtime or the store rejects for
  reasons outside the world's state (\<open>fault\<close>: the runtime is unreachable, the daemon
  refuses), whether following a pull's progress reports an error, how long the listing
  and the pull of an image take, the exit code and the logs of a container that ran, the
  identifier the runtime gives a container, the rows of the store, the identifier the
  store gives a new workspace, the \<^verbatim>\<open>DOMAIN\<close> environment variable, and the
  library encoders (\<^verbatim>\<open>Buffer.from(..).toString('base64')\<close>, and the same after
  \<^verbatim>\<open>JSON.stringify(.., null, 2)\<close>), whose output no claim depends on.
\<close>

record env =
  fault :: "request \<Rightarrow> bool"
  progress_fails :: "string \<Rightarrow> bool"
  list_time :: "string \<Rightarrow> nat"
  pull_time :: "string \<Rightarrow> nat"
  exit_code :: "container \<Rightarrow> int"
  logs_of :: "container \<Rightarrow> string"
  id_of :: "string \<Rightarrow> string"
  skill_rows :: "skill list"
  provider_rows :: "provider list"
  new_id :: string
  DOMAIN :: "string option"
  base64 :: "string \<Rightarrow> string"
  json_base64 :: "opencode_config \<Rightarrow> string"

subsection \<open>Computations that may throw\<close>

type_synonym 'a io = "world \<Rightarrow> (error + 'a) \<times> world"

definition ret :: "'a \<Rightarrow> 'a io" where
  "ret x = (\<lambda>s. (Inr x, s))"

definition throw :: "error \<Rightarrow> 'a io" where
  "throw e = (\<lambda>s. (Inl e, s))"

text \<open>\<^verbatim>\<open>const x = await m; f(x)\<close>: the rest is skipped when \<open>m\<close> throws.\<close>

definition andThen :: "'a io \<Rightarrow> ('a \<Rightarrow> 'b io) \<Rightarrow> 'b io" where
  "andThen m f = (\<lambda>s. case m s of (Inl e, s') \<Rightarrow> (Inl e, s') | (Inr x, s') \<Rightarrow> f x s')"

text \<open>\<^verbatim>\<open>try { m } catch (e) { h(e) }\<close>.\<close>

definition try_catch :: "'a io \<Rightarrow> (error \<Rightarrow> 'a io) \<Rightarrow> 'a io" where
  "try_catch m h = (\<lambda>s. case m s of (Inl e, s') \<Rightarrow> h e s' | (Inr x, s') \<Rightarrow> (Inr x, s'))"

text \<open>\<^verbatim>\<open>m.catch(() => { })\<close> and \<^verbatim>\<open>try { await m } catch { }\<close>: any error is dropped.\<close>

definition swallow :: "'a io \<Rightarrow> unit io" where
  "swallow m = (\<lambda>s. case m s of (r, s') \<Rightarrow> (Inr (), s'))"

text \<open>
  A request is logged when it is issued; a rejected request changes nothing else.
\<close>

definition issue :: "env \<Rightarrow> request \<Rightarrow> 'a io \<Rightarrow> 'a io" where
  "issue env r body =
     (\<lambda>s. let s' = s\<lparr>calls := calls s @ [r]\<rparr> in
           if fault env r then (Inl (Unreachable r), s') else body s')"

subsection \<open>The runtime's answers\<close>

text \<open>
  The runtime is outside the repository; its answers follow the Docker Engine API as the
  source relies on it: names are unique among containers and among networks, creating a
  volume that exists returns it, a running container is removed only by force, a network
  is removed only when no running container is attached to it, a volume only when no
  container mounts it.
\<close>

definition find_container :: "string \<Rightarrow> world \<Rightarrow> container option" where
  "find_container n s = find (\<lambda>c. c_name c = n) (containers s)"

definition set_running :: "string \<Rightarrow> bool \<Rightarrow> world \<Rightarrow> world" where
  "set_running n b s =
     s\<lparr>containers := map (\<lambda>c. if c_name c = n then c\<lparr>c_running := b\<rparr> else c) (containers s)\<rparr>"

definition listImages :: "env \<Rightarrow> string \<Rightarrow> string list io" where
  "listImages env img =
     issue env (ListImages img) (\<lambda>s. (Inr (filter (\<lambda>i. i = img) (images s)), s))"

definition pullImage :: "env \<Rightarrow> string \<Rightarrow> unit io" where
  "pullImage env img =
     issue env (PullImage img)
       (\<lambda>s. if progress_fails env img then (Inl (PullProgress img), s)
            else (Inr (), s\<lparr>images := images s @ [img]\<rparr>))"

definition createVolume :: "env \<Rightarrow> string \<Rightarrow> (string \<times> string) list \<Rightarrow> unit io" where
  "createVolume env n labels =
     issue env (CreateVolume n)
       (\<lambda>s. if n \<in> set (map fst (volumes s)) then (Inr (), s)
            else (Inr (), s\<lparr>volumes := volumes s @ [(n, labels)]\<rparr>))"

definition createNetwork :: "env \<Rightarrow> string \<Rightarrow> unit io" where
  "createNetwork env n =
     issue env (CreateNetwork n)
       (\<lambda>s. if n \<in> set (networks s) then (Inl (Conflict n), s)
            else (Inr (), s\<lparr>networks := networks s @ [n]\<rparr>))"

definition createContainer :: "env \<Rightarrow> container \<Rightarrow> string io" where
  "createContainer env c =
     issue env (CreateContainer (c_name c))
       (\<lambda>s. if find_container (c_name c) s \<noteq> None then (Inl (Conflict (c_name c)), s)
            else (Inr (c_name c), s\<lparr>containers := containers s @ [c\<lparr>c_running := False\<rparr>]\<rparr>))"

definition startContainer :: "env \<Rightarrow> string \<Rightarrow> unit io" where
  "startContainer env n =
     issue env (StartContainer n)
       (\<lambda>s. case find_container n s of
              None \<Rightarrow> (Inl (NotFound n), s)
            | Some c \<Rightarrow> if c_running c then (Inl (NotModified n), s)
                       else (Inr (), set_running n True s))"

definition waitContainer :: "env \<Rightarrow> string \<Rightarrow> int io" where
  "waitContainer env n =
     issue env (WaitContainer n)
       (\<lambda>s. case find_container n s of
              None \<Rightarrow> (Inl (NotFound n), s)
            | Some c \<Rightarrow> (Inr (exit_code env c), set_running n False s))"

definition logsContainer :: "env \<Rightarrow> string \<Rightarrow> string io" where
  "logsContainer env n =
     issue env (LogsContainer n)
       (\<lambda>s. case find_container n s of
              None \<Rightarrow> (Inl (NotFound n), s)
            | Some c \<Rightarrow> (Inr (logs_of env c), s))"

definition stopContainer :: "env \<Rightarrow> string \<Rightarrow> unit io" where
  "stopContainer env n =
     issue env (StopContainer n)
       (\<lambda>s. case find_container n s of
              None \<Rightarrow> (Inl (NotFound n), s)
            | Some c \<Rightarrow> if c_running c then (Inr (), set_running n False s)
                       else (Inl (NotModified n), s))"

definition removeContainer :: "env \<Rightarrow> string \<Rightarrow> bool \<Rightarrow> unit io" where
  "removeContainer env n force =
     issue env (RemoveContainer n force)
       (\<lambda>s. case find_container n s of
              None \<Rightarrow> (Inl (NotFound n), s)
            | Some c \<Rightarrow> if c_running c \<and> \<not> force then (Inl (Conflict n), s)
                       else (Inr (), s\<lparr>containers := filter (\<lambda>c. c_name c \<noteq> n) (containers s)\<rparr>))"

definition connectNetwork :: "env \<Rightarrow> string \<Rightarrow> string \<Rightarrow> unit io" where
  "connectNetwork env net n =
     issue env (ConnectNetwork net n)
       (\<lambda>s. if net \<notin> set (networks s) then (Inl (NotFound net), s)
            else (case find_container n s of
                    None \<Rightarrow> (Inl (NotFound n), s)
                  | Some c \<Rightarrow>
                      if net \<in> set (c_networks c) then (Inl (Conflict n), s)
                      else (Inr (), s\<lparr>containers :=
                              map (\<lambda>c. if c_name c = n then c\<lparr>c_networks := c_networks c @ [net]\<rparr> else c)
                                (containers s)\<rparr>)))"

definition network_busy :: "string \<Rightarrow> world \<Rightarrow> bool" where
  "network_busy n s = list_ex (\<lambda>c. c_running c \<and> n \<in> set (c_networks c)) (containers s)"

definition volume_mounted :: "string \<Rightarrow> world \<Rightarrow> bool" where
  "volume_mounted n s = list_ex (\<lambda>c. n \<in> set (map fst (c_binds c))) (containers s)"

definition removeNetwork :: "env \<Rightarrow> string \<Rightarrow> unit io" where
  "removeNetwork env n =
     issue env (RemoveNetwork n)
       (\<lambda>s. if n \<notin> set (networks s) then (Inl (NotFound n), s)
            else if network_busy n s then (Inl (InUse n), s)
            else (Inr (), s\<lparr>networks := filter (\<lambda>x. x \<noteq> n) (networks s)\<rparr>))"

definition removeVolume :: "env \<Rightarrow> string \<Rightarrow> unit io" where
  "removeVolume env n =
     issue env (RemoveVolume n)
       (\<lambda>s. if n \<notin> set (map fst (volumes s)) then (Inl (NotFound n), s)
            else if volume_mounted n s then (Inl (InUse n), s)
            else (Inr (), s\<lparr>volumes := filter (\<lambda>v. fst v \<noteq> n) (volumes s)\<rparr>))"

text \<open>
  The record store. A query with \<^verbatim>\<open>userId\<close> left undefined is not filtered by
  owner; \<^verbatim>\<open>create\<close> throws when the identifier is taken (it is the primary key);
  \<^verbatim>\<open>update\<close> of a row that does not exist throws.
\<close>

definition owned_by :: "string option \<Rightarrow> string \<Rightarrow> bool" where
  "owned_by userId owner = (case userId of None \<Rightarrow> True | Some u \<Rightarrow> owner = u)"

definition findSkills :: "env \<Rightarrow> string option \<Rightarrow> skill list io" where
  "findSkills env userId =
     issue env FindSkills
       (\<lambda>s. (Inr (filter (\<lambda>k. owned_by userId (s_userId k)) (skill_rows env)), s))"

definition findProviders :: "env \<Rightarrow> string option \<Rightarrow> provider list io" where
  "findProviders env userId =
     issue env FindProviders
       (\<lambda>s. (Inr (map (\<lambda>p. p\<lparr>p_models := filter m_isEnabled (p_models p)\<rparr>)
                    (filter (\<lambda>p. owned_by userId (p_userId p) \<and> p_isEnabled p) (provider_rows env))), s))"

definition workspaceCreate :: "env \<Rightarrow> status \<Rightarrow> string io" where
  "workspaceCreate env st =
     issue env (WorkspaceCreate st)
       (\<lambda>s. if new_id env \<in> set (map fst (records s)) then (Inl (Conflict (new_id env)), s)
            else (Inr (new_id env), s\<lparr>records := records s @ [(new_id env, st)]\<rparr>))"

definition workspaceUpdate :: "env \<Rightarrow> string \<Rightarrow> status \<Rightarrow> unit io" where
  "workspaceUpdate env wid st =
     issue env (WorkspaceUpdate wid st)
       (\<lambda>s. if wid \<notin> set (map fst (records s)) then (Inl (NotFound wid), s)
            else (Inr (), s\<lparr>records := map (\<lambda>r. if fst r = wid then (wid, st) else r) (records s)\<rparr>))"

subsection \<open>\<^verbatim>\<open>Promise.all\<close>\<close>

text \<open>
  Every promise of the array has been started when \<^verbatim>\<open>Promise.all\<close> is called, so
  every computation runs. The result is rejected with the reason of the promise that
  rejects first (the first in the array among those that settle at the same time); the
  other results are dropped. Each computation is paired with the time at which it settles.
\<close>

fun run_all :: "(nat \<times> unit io) list \<Rightarrow> world \<Rightarrow> (nat \<times> (error + unit)) list \<times> world" where
  "run_all [] s = ([], s)"
| "run_all (p # ps) s =
     (case snd p s of (r, s') \<Rightarrow>
        (case run_all ps s' of (rs, s'') \<Rightarrow> ((fst p, r) # rs, s'')))"

fun first_rejection :: "(nat \<times> (error + unit)) list \<Rightarrow> (nat \<times> error) option" where
  "first_rejection [] = None"
| "first_rejection (p # rs) =
     (case snd p of
        Inr u \<Rightarrow> first_rejection rs
      | Inl e \<Rightarrow>
          (case first_rejection rs of
             None \<Rightarrow> Some (fst p, e)
           | Some q \<Rightarrow> if fst q < fst p then Some q else Some (fst p, e)))"

definition promise_all :: "(nat \<times> unit io) list \<Rightarrow> unit io" where
  "promise_all ps =
     (\<lambda>s. case run_all ps s of (rs, s') \<Rightarrow>
        (case first_rejection rs of
           None \<Rightarrow> (Inr (), s')
         | Some q \<Rightarrow> (Inl (snd q), s')))"

subsection \<open>Names, labels and commands (docker.ts, lines 58 to 83)\<close>

definition network_name :: "string \<Rightarrow> string" where
  "network_name w = ''workspace-'' @ w"

definition data_volume :: "string \<Rightarrow> string" where
  "data_volume w = ''workspace-'' @ w @ ''-data''"

definition opencode_volume :: "string \<Rightarrow> string" where
  "opencode_volume w = ''workspace-'' @ w @ ''-opencode''"

definition init_name :: "string \<Rightarrow> string" where
  "init_name w = ''init-'' @ w"

definition code_server_name :: "string \<Rightarrow> string" where
  "code_server_name w = ''code-server-'' @ w"

definition opencode_name :: "string \<Rightarrow> string" where
  "opencode_name w = ''opencode-'' @ w"

definition mainNetwork :: string where
  "mainNetwork = ''open-web-agent-2_web''"

definition gitImage :: string where
  "gitImage = ''alpine/git:latest''"

definition codeServerImage :: string where
  "codeServerImage = ''codercom/code-server:latest''"

definition opencodeImage :: string where
  "opencodeImage = ''ghcr.io/anomalyco/opencode:0.0.0-beta-202601311004''"

definition domain :: "env \<Rightarrow> string" where
  "domain env = or_default (DOMAIN env) ''localhost''"

definition backtick :: string where
  "backtick = [CHR 0x60]"

definition squote :: string where
  "squote = [CHR 0x27]"

definition dquote :: string where
  "dquote = [CHR 0x22]"

definition host_rule :: "string \<Rightarrow> string" where
  "host_rule h = ''Host('' @ backtick @ h @ backtick @ '')''"

fun js_join :: "string \<Rightarrow> string list \<Rightarrow> string" where
  "js_join sep [] = []"
| "js_join sep [x] = x"
| "js_join sep (x # y # ys) = x @ sep @ js_join sep (y # ys)"

record WorkspaceContainerConfig =
  workspaceId :: string
  userId :: "string option"
  githubRepo :: string
  githubBranch :: "string option"
  githubToken :: "string option"

record container_info =
  codeServerContainerId :: string
  opencodeContainerId :: string
  networkName :: string
  volumeName :: string

definition branch_of :: "WorkspaceContainerConfig \<Rightarrow> string" where
  "branch_of config = (case githubBranch config of None \<Rightarrow> ''main'' | Some b \<Rightarrow> b)"

text \<open>The helper \<^verbatim>\<open>pullImageIfNeeded\<close> (lines 11 to 47).\<close>

definition image_listed :: "env \<Rightarrow> string \<Rightarrow> bool io" where
  "image_listed env imageName =
     try_catch (andThen (listImages env imageName) (\<lambda>imgs. ret (0 < length imgs)))
       (\<lambda>e. ret False)"

definition pullImageIfNeeded :: "env \<Rightarrow> string \<Rightarrow> unit io" where
  "pullImageIfNeeded env imageName =
     andThen (image_listed env imageName)
       (\<lambda>present. if present then ret () else pullImage env imageName)"

text \<open>Lines 134 to 143: one shell command for each skill, joined by \<^verbatim>\<open>&&\<close>.\<close>

definition skill_command :: "env \<Rightarrow> skill \<Rightarrow> string" where
  "skill_command env k =
     (let skillDir = ''/root/.config/opencode/skills/'' @ s_name k in
      ''mkdir -p '' @ skillDir @ '' && echo '' @ squote @ base64 env (s_content k) @ squote
        @ '' | base64 -d > '' @ skillDir @ ''/SKILL.md'')"

definition skillsSetupCommands :: "env \<Rightarrow> skill list \<Rightarrow> string" where
  "skillsSetupCommands env skills =
     (if 0 < length skills then js_join '' && '' (map (skill_command env) skills) else [])"

text \<open>Lines 145 to 204: the agent configuration.\<close>

definition default_model :: "provider list \<Rightarrow> string option" where
  "default_model providers =
     (case find p_isDefault providers of
        None \<Rightarrow> None
      | Some defaultProvider \<Rightarrow>
          (case find m_isDefault (p_models defaultProvider) of
             None \<Rightarrow> None
           | Some defaultModel \<Rightarrow>
               Some (toLowerCase (p_providerId defaultProvider) @ ''/'' @ m_modelId defaultModel)))"

fun assign_key :: "string \<Rightarrow> 'v \<Rightarrow> (string \<times> 'v) list \<Rightarrow> (string \<times> 'v) list" where
  "assign_key k v [] = [(k, v)]"
| "assign_key k v (p # ps) = (if fst p = k then (k, v) # ps else p # assign_key k v ps)"

definition custom_headers :: "provider \<Rightarrow> (string \<times> string) list option" where
  "custom_headers p =
     (case p_headers p of
        None \<Rightarrow> None
      | Some hs \<Rightarrow>
          if 0 < length hs
          then (let customHeaders = filter (\<lambda>h. fst h \<noteq> ''Authorization'') hs in
                if 0 < length customHeaders then Some customHeaders else None)
          else None)"

definition provider_entry :: "provider \<Rightarrow> provider_options" where
  "provider_entry p =
     \<lparr> o_baseURL = (if truthy (p_baseUrl p) then p_baseUrl p else None),
       o_apiKey = (if truthy (p_envVarName p)
                   then Some (''{env:'' @ the (p_envVarName p) @ ''}'') else None),
       o_headers = custom_headers p \<rparr>"

definition add_provider :: "provider \<Rightarrow> opencode_config \<Rightarrow> opencode_config" where
  "add_provider p c =
     (let providerKey = toLowerCase (p_providerId p) in
      c\<lparr> cfg_enabled_providers := cfg_enabled_providers c @ [providerKey],
         cfg_provider := assign_key providerKey (provider_entry p) (cfg_provider c) \<rparr>)"

definition allPossibleProviders :: "string list" where
  "allPossibleProviders =
     [''openai'', ''anthropic'', ''google'', ''groq'', ''openrouter'', ''mistral'',
      ''together'', ''deepseek'', ''xai'', ''ollama'', ''lmstudio'']"

definition opencodeConfig :: "provider list \<Rightarrow> opencode_config" where
  "opencodeConfig providers =
     (let c0 = \<lparr> cfg_schema = ''https://opencode.ai/config.json'', cfg_provider = [],
                 cfg_enabled_providers = [], cfg_disabled_providers = [],
                 cfg_model = default_model providers \<rparr> in
      if 0 < length providers
      then (let c1 = fold add_provider providers c0 in
            c1\<lparr> cfg_disabled_providers :=
                   filter (\<lambda>p. p \<notin> set (cfg_enabled_providers c1)) allPossibleProviders \<rparr>)
      else c0)"

definition opencodeConfigCommand :: "env \<Rightarrow> provider list \<Rightarrow> string" where
  "opencodeConfigCommand env providers =
     ''mkdir -p /root/.config/opencode && echo '' @ squote
       @ json_base64 env (opencodeConfig providers) @ squote
       @ '' | base64 -d > /root/.config/opencode/opencode.json''"

text \<open>Lines 213 to 232: the init container that clones the repository.\<close>

definition init_container :: "WorkspaceContainerConfig \<Rightarrow> container" where
  "init_container config =
     (let w = workspaceId config in
      \<lparr> c_name = init_name w, c_image = gitImage, c_user = None,
        c_entrypoint = [''sh'', ''-c''],
        c_cmd = [''git clone --branch '' @ branch_of config @ '' ''
                   @ repoUrl (githubToken config) (githubRepo config) @ '' /workspace''],
        c_env = [], c_ports = [],
        c_binds = [(data_volume w, ''/workspace'')],
        c_networks = [], c_restart = None, c_memory = None, c_nanocpus = None,
        c_labels = [(''workspace.id'', w), (''workspace.type'', ''init'')],
        c_running = False \<rparr>)"

text \<open>Lines 251 to 310: the editor settings and the editor container.\<close>

datatype jvalue = JStr string | JBool bool

definition json_member :: "string \<times> jvalue \<Rightarrow> string" where
  "json_member kv =
     dquote @ fst kv @ dquote @ '':''
       @ (case snd kv of JStr v \<Rightarrow> dquote @ v @ dquote
                       | JBool b \<Rightarrow> if b then ''true'' else ''false'')"

definition json_stringify :: "(string \<times> jvalue) list \<Rightarrow> string" where
  "json_stringify kvs = ''{'' @ js_join '','' (map json_member kvs) @ ''}''"

definition vscodeSettings :: "(string \<times> jvalue) list" where
  "vscodeSettings =
     [(''workbench.startupEditor'', JStr ''none''),
      (''workbench.welcomePage.walkthroughs.openOnInstall'', JBool False),
      (''workbench.tips.enabled'', JBool False),
      (''security.workspace.trust.enabled'', JBool False),
      (''security.workspace.trust.startupPrompt'', JStr ''never''),
      (''git.openRepositoryInParentFolders'', JStr ''always''),
      (''workbench.colorTheme'', JStr ''Default Dark Modern''),
      (''window.autoDetectColorScheme'', JBool True),
      (''telemetry.telemetryLevel'', JStr ''off''),
      (''update.mode'', JStr ''none''),
      (''extensions.autoUpdate'', JBool False),
      (''workbench.secondarySideBar.visible'', JBool False),
      (''workbench.secondarySideBar.defaultVisibility'', JStr ''hidden''),
      (''workbench.activityBar.location'', JStr ''default''),
      (''breadcrumbs.enabled'', JBool True),
      (''editor.minimap.enabled'', JBool False),
      (''workbench.layoutControl.enabled'', JBool False)]"

definition code_server_labels :: "env \<Rightarrow> string \<Rightarrow> (string \<times> string) list" where
  "code_server_labels env w =
     [(''traefik.enable'', ''true''),
      (''traefik.docker.network'', mainNetwork),
      (''traefik.http.routers.vscode-'' @ w @ ''.rule'',
         host_rule (''vscode-'' @ w @ ''.'' @ domain env)),
      (''traefik.http.services.vscode-'' @ w @ ''.loadbalancer.server.port'', ''8443''),
      (''traefik.http.routers.vscode-'' @ w @ ''.entrypoints'', ''web''),
      (''workspace.id'', w)]"

definition code_server_container :: "env \<Rightarrow> WorkspaceContainerConfig \<Rightarrow> container" where
  "code_server_container env config =
     (let w = workspaceId config in
      \<lparr> c_name = code_server_name w, c_image = ''codercom/code-server:latest'',
        c_user = Some ''1000:1000'',
        c_entrypoint = [''sh'', ''-c''],
        c_cmd = [''mkdir -p /home/coder/.local/share/code-server/User && ''
                   @ ''echo '' @ squote @ json_stringify vscodeSettings @ squote
                   @ '' > /home/coder/.local/share/code-server/User/settings.json && ''
                   @ ''exec code-server --bind-addr 0.0.0.0:8443 --auth none /home/coder/workspace''],
        c_env = [''TZ=UTC''], c_ports = [''8443/tcp''],
        c_binds = [(data_volume w, ''/home/coder/workspace'')],
        c_networks = [network_name w], c_restart = Some ''unless-stopped'',
        c_memory = Some (2 * 1024 * 1024 * 1024), c_nanocpus = Some (2 * 1000000000),
        c_labels = code_server_labels env w,
        c_running = False \<rparr>)"

text \<open>Lines 312 to 386: the agent container.\<close>

definition provider_env :: "provider \<Rightarrow> string list" where
  "provider_env p =
     (if truthy (p_apiKey p) \<and> truthy (p_envVarName p)
      then [the (p_envVarName p) @ ''='' @ the (p_apiKey p)] else [])"

definition opencodeEnv :: "string option \<Rightarrow> provider list \<Rightarrow> string list" where
  "opencodeEnv token providers =
     (if truthy token then [''GITHUB_TOKEN='' @ the token, ''GH_TOKEN='' @ the token] else [])
       @ concat (map provider_env providers)"

definition opencode_labels :: "env \<Rightarrow> string \<Rightarrow> (string \<times> string) list" where
  "opencode_labels env w =
     [(''traefik.enable'', ''true''),
      (''traefik.docker.network'', mainNetwork),
      (''traefik.http.routers.opencode-'' @ w @ ''.rule'',
         host_rule (''opencode-'' @ w @ ''.'' @ domain env)),
      (''traefik.http.routers.opencode-'' @ w @ ''.service'', ''opencode-'' @ w),
      (''traefik.http.routers.opencode-'' @ w @ ''.entrypoints'', ''web''),
      (''traefik.http.services.opencode-'' @ w @ ''.loadbalancer.server.port'', ''3001''),
      (''traefik.http.routers.preview-'' @ w @ ''.rule'',
         host_rule (''preview-'' @ w @ ''.'' @ domain env)),
      (''traefik.http.routers.preview-'' @ w @ ''.service'', ''preview-'' @ w),
      (''traefik.http.routers.preview-'' @ w @ ''.entrypoints'', ''web''),
      (''traefik.http.services.preview-'' @ w @ ''.loadbalancer.server.port'', ''3000''),
      (''traefik.http.middlewares.preview-headers-'' @ w
         @ ''.headers.customResponseHeaders.X-Frame-Options'', []),
      (''traefik.http.middlewares.preview-headers-'' @ w
         @ ''.headers.customResponseHeaders.Content-Security-Policy'', []),
      (''traefik.http.routers.preview-'' @ w @ ''.middlewares'', ''preview-headers-'' @ w),
      (''workspace.id'', w)]"

definition opencode_container ::
  "env \<Rightarrow> WorkspaceContainerConfig \<Rightarrow> skill list \<Rightarrow> provider list \<Rightarrow> container" where
  "opencode_container env config skills providers =
     (let w = workspaceId config in
      \<lparr> c_name = opencode_name w, c_image = opencodeImage, c_user = None,
        c_entrypoint = [''sh'', ''-c''],
        c_cmd = [''apk add --no-cache git github-cli nodejs npm python3 sqlite''
                   @ '' && '' @ opencodeConfigCommand env providers
                   @ (if skillsSetupCommands env skills \<noteq> []
                      then '' && '' @ skillsSetupCommands env skills else [])
                   @ '' && cd /workspace && exec opencode web --port 3001 --hostname 0.0.0.0''],
        c_env = opencodeEnv (githubToken config) providers,
        c_ports = [''3001/tcp'', ''3000/tcp''],
        c_binds = [(data_volume w, ''/workspace''),
                   (opencode_volume w, ''/root/.local/share/opencode'')],
        c_networks = [network_name w], c_restart = Some ''unless-stopped'',
        c_memory = Some (4 * 1024 * 1024 * 1024), c_nanocpus = Some (2 * 1000000000),
        c_labels = opencode_labels env w,
        c_running = False \<rparr>)"

subsection \<open>Teardown (docker.ts, lines 419 to 507)\<close>

datatype outcome = Success

definition cleanupWorkspace :: "env \<Rightarrow> string \<Rightarrow> unit io" where
  "cleanupWorkspace env w =
     andThen (swallow (swallow (removeContainer env (init_name w) True))) (\<lambda>_.
     andThen (swallow (swallow (removeNetwork env (network_name w)))) (\<lambda>_.
     andThen (swallow (swallow (removeVolume env (data_volume w)))) (\<lambda>_.
     swallow (swallow (removeVolume env (opencode_volume w))))))"

definition stopWorkspaceContainer :: "env \<Rightarrow> string \<Rightarrow> outcome io" where
  "stopWorkspaceContainer env w =
     try_catch
       (andThen
          (promise_all
             [(0, swallow (stopContainer env (code_server_name w))),
              (0, swallow (stopContainer env (opencode_name w)))])
          (\<lambda>_. ret Success))
       (\<lambda>e. throw e)"

definition startWorkspaceContainer :: "env \<Rightarrow> string \<Rightarrow> outcome io" where
  "startWorkspaceContainer env w =
     try_catch
       (andThen
          (promise_all
             [(0, swallow (startContainer env (code_server_name w))),
              (0, swallow (startContainer env (opencode_name w)))])
          (\<lambda>_. ret Success))
       (\<lambda>e. throw e)"

definition removeWorkspaceContainer :: "env \<Rightarrow> string \<Rightarrow> outcome io" where
  "removeWorkspaceContainer env w =
     try_catch
       (andThen (stopWorkspaceContainer env w) (\<lambda>_.
        andThen
          (promise_all
             [(0, swallow (removeContainer env (code_server_name w) True)),
              (0, swallow (removeContainer env (opencode_name w) True))]) (\<lambda>_.
        andThen (cleanupWorkspace env w) (\<lambda>_.
        ret Success))))
       (\<lambda>e. throw e)"

text \<open>
  The order of teardown as the specification words it: stop, remove both service
  containers, the network, both volumes, and the init container last.
\<close>

definition remove_order_of_spec :: "string \<Rightarrow> request list" where
  "remove_order_of_spec w =
     [StopContainer (code_server_name w), StopContainer (opencode_name w),
      RemoveContainer (code_server_name w) True, RemoveContainer (opencode_name w) True,
      RemoveNetwork (network_name w),
      RemoveVolume (data_volume w), RemoveVolume (opencode_volume w),
      RemoveContainer (init_name w) True]"

subsection \<open>Provisioning (docker.ts, lines 58 to 417)\<close>

text \<open>
  The body of the \<^verbatim>\<open>try\<close> block in parts: everything from the parallel pulls up
  to the removal of the init container, and the creation and start of the two service
  containers.
\<close>

text \<open>
  The three calls of \<^verbatim>\<open>pullImageIfNeeded\<close> under \<^verbatim>\<open>Promise.all\<close> (lines 88 to 92).
  Each call runs up to its first \<^verbatim>\<open>await\<close> when it is made, so the three listings
  are requested first, in the order of the array. A call whose listing fails or does not
  show the image requests the pull when its listing is answered, and settles when the
  pull does; the others settle with their listing. \<^verbatim>\<open>Promise.all\<close> rejects when
  the first call rejects and does not wait for the others: at that moment the world
  holds the pulls requested so far and the images pulled so far, and the pulls still
  running are \<open>in_flight\<close>.
\<close>

definition pull_outcome :: "env \<Rightarrow> string \<Rightarrow> error + unit" where
  "pull_outcome env i =
     (if fault env (PullImage i) then Inl (Unreachable (PullImage i))
      else if progress_fails env i then Inl (PullProgress i)
      else Inr ())"

definition chain_settles :: "env \<Rightarrow> string \<times> bool \<Rightarrow> nat" where
  "chain_settles env c = list_time env (fst c) + (if snd c then 0 else pull_time env (fst c))"

definition chain_result :: "env \<Rightarrow> string \<times> bool \<Rightarrow> error + unit" where
  "chain_result env c = (if snd c then Inr () else pull_outcome env (fst c))"

definition pull_results :: "env \<Rightarrow> (string \<times> bool) list \<Rightarrow> (nat \<times> (error + unit)) list" where
  "pull_results env listed = map (\<lambda>c. (chain_settles env c, chain_result env c)) listed"

definition pulls_needed :: "env \<Rightarrow> (string \<times> bool) list \<Rightarrow> string list" where
  "pulls_needed env listed =
     sort_key (list_time env) (map fst (filter (\<lambda>c. \<not> snd c) listed))"

definition pull_images :: "env \<Rightarrow> unit io" where
  "pull_images env =
     (\<lambda>s. case image_listed env gitImage s of (r1, s1) \<Rightarrow>
          (case image_listed env codeServerImage s1 of (r2, s2) \<Rightarrow>
          (case image_listed env opencodeImage s2 of (r3, s3) \<Rightarrow>
            (let listed = [(gitImage, r1 = Inr True), (codeServerImage, r2 = Inr True),
                           (opencodeImage, r3 = Inr True)];
                 pulls = pulls_needed env listed
             in case first_rejection (pull_results env listed) of
                  None \<Rightarrow>
                    (Inr (), s3\<lparr>calls := calls s3 @ map PullImage pulls,
                                images := images s3 @ pulls\<rparr>)
                | Some q \<Rightarrow>
                    (Inl (snd q),
                     s3\<lparr>calls := calls s3
                           @ map PullImage (filter (\<lambda>i. list_time env i \<le> fst q) pulls),
                        images := images s3
                           @ filter (\<lambda>i. list_time env i + pull_time env i \<le> fst q
                                        \<and> pull_outcome env i = Inr ()) pulls,
                        in_flight := in_flight s3
                           @ filter (\<lambda>i. fst q < list_time env i + pull_time env i) pulls\<rparr>)))))"

definition provision_prepare ::
  "env \<Rightarrow> WorkspaceContainerConfig \<Rightarrow> (skill list \<times> provider list) io" where
  "provision_prepare env config =
     (let w = workspaceId config in
      andThen (pull_images env) (\<lambda>_.
      andThen (createVolume env (data_volume w) [(''workspace.id'', w)]) (\<lambda>_.
      andThen (createVolume env (opencode_volume w) [(''workspace.id'', w)]) (\<lambda>_.
      andThen (findSkills env (userId config)) (\<lambda>skills.
      andThen (findProviders env (userId config)) (\<lambda>providers.
      andThen (createNetwork env (network_name w)) (\<lambda>_.
      andThen (createContainer env (init_container config)) (\<lambda>initContainer.
      andThen (startContainer env initContainer) (\<lambda>_.
      andThen (waitContainer env initContainer) (\<lambda>statusCode.
      andThen
        (if statusCode \<noteq> 0
         then andThen (logsContainer env initContainer) (\<lambda>logs. throw (CloneFailed statusCode))
         else ret ()) (\<lambda>_.
      andThen (removeContainer env initContainer False) (\<lambda>_.
      ret (skills, providers)))))))))))))"

definition provision_services ::
  "env \<Rightarrow> WorkspaceContainerConfig \<Rightarrow> skill list \<times> provider list \<Rightarrow> container_info io" where
  "provision_services env config sp =
     (let w = workspaceId config in
      andThen (createContainer env (code_server_container env config)) (\<lambda>codeServerContainer.
      andThen (createContainer env (opencode_container env config (fst sp) (snd sp)))
        (\<lambda>opencodeContainer.
      andThen (connectNetwork env mainNetwork (code_server_name w)) (\<lambda>_.
      andThen (connectNetwork env mainNetwork (opencode_name w)) (\<lambda>_.
      andThen (startContainer env codeServerContainer) (\<lambda>_.
      andThen (startContainer env opencodeContainer) (\<lambda>_.
      ret \<lparr> codeServerContainerId = id_of env codeServerContainer,
            opencodeContainerId = id_of env opencodeContainer,
            networkName = network_name w,
            volumeName = data_volume w \<rparr>)))))))"

definition createWorkspaceContainer :: "env \<Rightarrow> WorkspaceContainerConfig \<Rightarrow> container_info io" where
  "createWorkspaceContainer env config =
     try_catch
       (andThen (provision_prepare env config) (provision_services env config))
       (\<lambda>error.
          andThen (swallow (cleanupWorkspace env (workspaceId config))) (\<lambda>_. throw error))"

text \<open>What remains in the runtime under the names derived from a workspace identifier.\<close>

definition workspace_containers :: "string \<Rightarrow> world \<Rightarrow> container list" where
  "workspace_containers w s =
     filter (\<lambda>c. c_name c \<in> {init_name w, code_server_name w, opencode_name w}) (containers s)"

definition workspace_networks :: "string \<Rightarrow> world \<Rightarrow> string list" where
  "workspace_networks w s = filter (\<lambda>n. n = network_name w) (networks s)"

definition workspace_volumes :: "string \<Rightarrow> world \<Rightarrow> string list" where
  "workspace_volumes w s =
     filter (\<lambda>n. n \<in> {data_volume w, opencode_volume w}) (map fst (volumes s))"

definition no_resources :: "string \<Rightarrow> world \<Rightarrow> bool" where
  "no_resources w s =
     (workspace_containers w s = [] \<and> workspace_networks w s = [] \<and> workspace_volumes w s = [])"

text \<open>
  No container outside the workspace's three is attached to its network or mounts its
  volumes: the isolation the runtime needs to let the network and the volumes go.
\<close>

definition foreign_user :: "string \<Rightarrow> container \<Rightarrow> bool" where
  "foreign_user w c =
     (c_name c \<notin> {init_name w, code_server_name w, opencode_name w}
      \<and> (network_name w \<in> set (c_networks c)
         \<or> data_volume w \<in> set (map fst (c_binds c))
         \<or> opencode_volume w \<in> set (map fst (c_binds c))))"

definition isolated :: "string \<Rightarrow> world \<Rightarrow> bool" where
  "isolated w s = (\<not> list_ex (foreign_user w) (containers s))"

text \<open>The runtime answers the requests of teardown for a workspace.\<close>

definition teardown_answered :: "env \<Rightarrow> string \<Rightarrow> bool" where
  "teardown_answered env w =
     (\<not> fault env (RemoveContainer (init_name w) True)
      \<and> \<not> fault env (RemoveContainer (code_server_name w) True)
      \<and> \<not> fault env (RemoveContainer (opencode_name w) True)
      \<and> \<not> fault env (RemoveNetwork (network_name w))
      \<and> \<not> fault env (RemoveVolume (data_volume w))
      \<and> \<not> fault env (RemoveVolume (opencode_volume w)))"

subsection \<open>The create-workspace route (\<^verbatim>\<open>POST\<close>)\<close>

record user =
  u_id :: string
  u_githubToken :: "string option"

datatype auth_result = AuthThrows | NoSession | SessionUser user

record post_body =
  b_name :: "string option"
  b_githubRepo :: "string option"
  b_githubBranch :: "string option"

datatype response =
    JsonError nat string
  | JsonWorkspace string status "string option"
  | JsonReady bool

definition config_of_request :: "string \<Rightarrow> user \<Rightarrow> post_body \<Rightarrow> WorkspaceContainerConfig" where
  "config_of_request wid u b =
     \<lparr> workspaceId = wid, userId = None,
       githubRepo = the (b_githubRepo b),
       githubBranch = Some (case b_githubBranch b of None \<Rightarrow> ''main'' | Some x \<Rightarrow> x),
       githubToken = (if truthy (u_githubToken u) then u_githubToken u else None) \<rparr>"

definition create_workspace :: "env \<Rightarrow> user \<Rightarrow> post_body \<Rightarrow> response io" where
  "create_workspace env u b =
     andThen (workspaceCreate env Pending) (\<lambda>wid.
       try_catch
         (andThen (workspaceUpdate env wid Starting) (\<lambda>_.
          andThen (createWorkspaceContainer env (config_of_request wid u b)) (\<lambda>containerInfo.
          andThen (workspaceUpdate env wid Running) (\<lambda>_.
          ret (JsonWorkspace wid Running (Some (opencodeContainerId containerInfo)))))))
         (\<lambda>error. andThen (workspaceUpdate env wid Error) (\<lambda>_. throw error)))"

definition POST :: "env \<Rightarrow> auth_result \<Rightarrow> post_body option \<Rightarrow> world \<Rightarrow> response \<times> world" where
  "POST env auth body s =
     (case auth of
        AuthThrows \<Rightarrow> (JsonError 500 ''Failed to create workspace'', s)
      | NoSession \<Rightarrow> (JsonError 401 ''Unauthorized'', s)
      | SessionUser u \<Rightarrow>
          (case body of
             None \<Rightarrow> (JsonError 500 ''Failed to create workspace'', s)
           | Some b \<Rightarrow>
               if \<not> truthy (b_name b) \<or> \<not> truthy (b_githubRepo b)
               then (JsonError 400 ''Name and GitHub repository are required'', s)
               else (case create_workspace env u b s of
                       (Inl e, s') \<Rightarrow> (JsonError 500 ''Failed to create workspace'', s')
                     | (Inr r, s') \<Rightarrow> (r, s'))))"

text \<open>The status the store shows for a workspace, and the presence of its runtime resources.\<close>

definition status_of :: "string \<Rightarrow> world \<Rightarrow> status option" where
  "status_of wid s = map_of (records s) wid"

definition service_running :: "string \<Rightarrow> world \<Rightarrow> bool" where
  "service_running n s =
     (case find_container n s of None \<Rightarrow> False | Some c \<Rightarrow> c_running c)"

definition resources_present :: "string \<Rightarrow> world \<Rightarrow> bool" where
  "resources_present w s =
     (service_running (code_server_name w) s \<and> service_running (opencode_name w) s
      \<and> network_name w \<in> set (networks s)
      \<and> data_volume w \<in> set (map fst (volumes s))
      \<and> opencode_volume w \<in> set (map fst (volumes s)))"

subsection \<open>The readiness route (\<^verbatim>\<open>GET\<close>)\<close>

text \<open>
  How the network answers a \<^verbatim>\<open>HEAD\<close> request to a URL: a response with a status
  code, the target of its \<^verbatim>\<open>Location\<close> header if it has one, after so many
  milliseconds; a failure after so many milliseconds; or nothing at all.
  \<^verbatim>\<open>fetch\<close> is called with its default \<^verbatim>\<open>redirect: 'follow'\<close>: a response with
  a redirect status and a location is not returned but followed, at most 20 times, and
  \<^verbatim>\<open>fetch\<close> rejects when a request on the way fails. The abort timer is set to
  3000 ms; an aborted \<^verbatim>\<open>fetch\<close> rejects.
\<close>

datatype answer = Answers nat "string option" nat | Fails nat | NoAnswer

datatype fetch_result = Resolved nat nat | Rejected nat | Unsettled

datatype lookup_result = LookupThrows | NoWorkspace | Found string

definition probe_timeout :: nat where
  "probe_timeout = 3000"

definition redirect_status :: "nat \<Rightarrow> bool" where
  "redirect_status code = (code \<in> set [301, 302, 303, 307, 308])"

fun fetch_follow :: "nat \<Rightarrow> (string \<Rightarrow> answer) \<Rightarrow> string \<Rightarrow> nat \<Rightarrow> fetch_result" where
  "fetch_follow 0 net url t =
     (case net url of
        NoAnswer \<Rightarrow> Unsettled
      | Fails d \<Rightarrow> Rejected (t + d)
      | Answers code location d \<Rightarrow>
          if redirect_status code \<and> location \<noteq> None then Rejected (t + d)
          else Resolved code (t + d))"
| "fetch_follow (Suc n) net url t =
     (case net url of
        NoAnswer \<Rightarrow> Unsettled
      | Fails d \<Rightarrow> Rejected (t + d)
      | Answers code location d \<Rightarrow>
          if redirect_status code \<and> location \<noteq> None
          then fetch_follow n net (the location) (t + d)
          else Resolved code (t + d))"

definition fetch :: "(string \<Rightarrow> answer) \<Rightarrow> string \<Rightarrow> fetch_result" where
  "fetch net url = fetch_follow 20 net url 0"

definition probe_url :: "string \<Rightarrow> string \<Rightarrow> string" where
  "probe_url service wid =
     (let containerName = (if service = ''opencode'' then ''opencode-'' @ wid
                           else ''code-server-'' @ wid);
          port = (if service = ''opencode'' then ''3001'' else ''8443'')
      in ''http://'' @ containerName @ '':'' @ port)"

text \<open>
  The inner \<^verbatim>\<open>try\<close>: ready when the fetch resolves before the timer fires, whatever
  the status of the response it resolves with.
\<close>

definition probe :: "fetch_result \<Rightarrow> bool" where
  "probe r =
     (case r of
        Resolved code t \<Rightarrow> t < probe_timeout
      | Rejected t \<Rightarrow> False
      | Unsettled \<Rightarrow> False)"

definition GET ::
  "auth_result \<Rightarrow> string option \<Rightarrow> lookup_result \<Rightarrow> (string \<Rightarrow> answer) \<Rightarrow> response" where
  "GET auth service lookup net =
     (case auth of
        AuthThrows \<Rightarrow> JsonError 500 ''Health check failed''
      | NoSession \<Rightarrow> JsonError 401 ''Unauthorized''
      | SessionUser u \<Rightarrow>
          if \<not> truthy service \<or> the service \<notin> set [''opencode'', ''vscode'']
          then JsonError 400 ''Invalid service parameter''
          else (case lookup of
                  LookupThrows \<Rightarrow> JsonError 500 ''Health check failed''
                | NoWorkspace \<Rightarrow> JsonError 404 ''Workspace not found''
                | Found wid \<Rightarrow> JsonReady (probe (fetch net (probe_url (the service) wid)))))"

subsection \<open>The specification's wording, for comparison\<close>

text \<open>
  The number of models marked default among the providers handed to the synthesizer, and
  the rule "a default-model reference exactly when one model is marked default".
\<close>

definition marked_default :: "provider list \<Rightarrow> nat" where
  "marked_default providers =
     length (concat (map (\<lambda>p. filter m_isDefault (p_models p)) providers))"

definition default_rule_of_spec :: "provider list \<Rightarrow> bool" where
  "default_rule_of_spec providers =
     ((cfg_model (opencodeConfig providers) \<noteq> None) = (marked_default providers = 1))"


text \<open>A request that creates a runtime resource.\<close>

fun creates :: "request \<Rightarrow> bool" where
  "creates (CreateVolume n) = True"
| "creates (CreateNetwork n) = True"
| "creates (CreateContainer n) = True"
| "creates r = False"

fun image_request :: "request \<Rightarrow> bool" where
  "image_request (ListImages i) = True"
| "image_request (PullImage i) = True"
| "image_request r = False"

fun runtime_request :: "request \<Rightarrow> bool" where
  "runtime_request FindSkills = False"
| "runtime_request FindProviders = False"
| "runtime_request (WorkspaceCreate st) = False"
| "runtime_request (WorkspaceUpdate wid st) = False"
| "runtime_request r = True"

text \<open>The runtime answers the four requests of \<^verbatim>\<open>cleanupWorkspace\<close>.\<close>

definition cleanup_answered :: "env \<Rightarrow> string \<Rightarrow> bool" where
  "cleanup_answered env w =
     (\<not> fault env (RemoveContainer (init_name w) True)
      \<and> \<not> fault env (RemoveNetwork (network_name w))
      \<and> \<not> fault env (RemoveVolume (data_volume w))
      \<and> \<not> fault env (RemoveVolume (opencode_volume w)))"

definition cleanup_requests :: "string \<Rightarrow> request list" where
  "cleanup_requests w =
     [RemoveContainer (init_name w) True, RemoveNetwork (network_name w),
      RemoveVolume (data_volume w), RemoveVolume (opencode_volume w)]"

text \<open>The store accepts the writes of the create-workspace route.\<close>

definition store_answers :: "env \<Rightarrow> bool" where
  "store_answers env =
     (\<not> fault env (WorkspaceCreate Pending)
      \<and> \<not> fault env (WorkspaceUpdate (new_id env) Starting)
      \<and> \<not> fault env (WorkspaceUpdate (new_id env) Running)
      \<and> \<not> fault env (WorkspaceUpdate (new_id env) Error))"

fun store_write :: "request \<Rightarrow> bool" where
  "store_write (WorkspaceCreate st) = True"
| "store_write (WorkspaceUpdate wid st) = True"
| "store_write r = False"

text \<open>
  Reading a label map the way the proxy does: the rules of its routers, the middlewares
  attached to routers, and the middlewares it defines.
\<close>

definition router_rules :: "(string \<times> string) list \<Rightarrow> (string \<times> string) list" where
  "router_rules labels =
     filter (\<lambda>kv. prefix ''traefik.http.routers.'' (fst kv) \<and> suffix ''.rule'' (fst kv)) labels"

definition middleware_attachments :: "(string \<times> string) list \<Rightarrow> (string \<times> string) list" where
  "middleware_attachments labels =
     filter (\<lambda>kv. prefix ''traefik.http.routers.'' (fst kv) \<and> suffix ''.middlewares'' (fst kv)) labels"

definition middleware_settings :: "(string \<times> string) list \<Rightarrow> (string \<times> string) list" where
  "middleware_settings labels =
     filter (\<lambda>kv. prefix ''traefik.http.middlewares.'' (fst kv)) labels"

subsection \<open>Concrete inputs\<close>

text \<open>
  A runtime that answers every request, a store with no rows, and a world that holds the
  shared proxy network only.
\<close>

definition quiet_env :: env where
  "quiet_env =
     \<lparr> fault = (\<lambda>r. False), progress_fails = (\<lambda>i. False), list_time = (\<lambda>i. 0),
       pull_time = (\<lambda>i. 0),
       exit_code = (\<lambda>c. 0), logs_of = (\<lambda>c. []), id_of = (\<lambda>n. n),
       skill_rows = [], provider_rows = [], new_id = ''w1'', DOMAIN = None,
       base64 = (\<lambda>x. x), json_base64 = (\<lambda>c. []) \<rparr>"

definition fresh_world :: world where
  "fresh_world =
     \<lparr> containers = [], networks = [mainNetwork], volumes = [], images = [],
       in_flight = [], records = [], calls = [] \<rparr>"

definition config1 :: WorkspaceContainerConfig where
  "config1 =
     \<lparr> workspaceId = ''w1'', userId = None,
       githubRepo = ''https://example.com/org/repo.git'',
       githubBranch = Some ''main'', githubToken = None \<rparr>"

text \<open>The runtime rejects every request: it is unreachable.\<close>

definition unreachable_env :: env where
  "unreachable_env = quiet_env\<lparr>fault := (\<lambda>r. True)\<rparr>"




text \<open>The runtime rejects the removal of the network of workspace \<^verbatim>\<open>w1\<close>.\<close>

definition network_rejected_env :: env where
  "network_rejected_env = quiet_env\<lparr>fault := (\<lambda>r. r = RemoveNetwork ''workspace-w1'')\<rparr>"

text \<open>The store rejects the write of the status \<^verbatim>\<open>error\<close>.\<close>

definition store_rejects_env :: env where
  "store_rejects_env =
     quiet_env\<lparr>fault := (\<lambda>r. r = CreateContainer ''code-server-w1''
                           \<or> r = WorkspaceUpdate ''w1'' Error)\<rparr>"

text \<open>
  The agent service of workspace \<^verbatim>\<open>w1\<close> answers with a redirect to a host that
  cannot be reached; and a service that answers every request with status 404.
\<close>

definition redirecting_net :: "string \<Rightarrow> answer" where
  "redirecting_net url =
     (if url = ''http://opencode-w1:3001'' then Answers 302 (Some ''http://gone.invalid/'') 5
      else Fails 1)"

definition not_found_net :: "string \<Rightarrow> answer" where
  "not_found_net url = Answers 404 None 12"

text \<open>
  Two enabled providers of one owner, each with one enabled model marked default; the
  first provider is the owner's default provider. And one enabled provider that is not
  the default provider, with its only model marked default.
\<close>

definition model_a :: llm_model where
  "model_a = \<lparr> m_modelId = ''gpt-4o'', m_isDefault = True, m_isEnabled = True \<rparr>"

definition model_b :: llm_model where
  "model_b = \<lparr> m_modelId = ''claude-sonnet'', m_isDefault = True, m_isEnabled = True \<rparr>"

definition provider_a :: provider where
  "provider_a =
     \<lparr> p_userId = ''u1'', p_providerId = ''OpenAI'', p_isEnabled = True, p_isDefault = True,
       p_baseUrl = None, p_envVarName = Some ''OPENAI_API_KEY'', p_apiKey = Some ''ka'',
       p_headers = None, p_models = [model_a] \<rparr>"

definition provider_b :: provider where
  "provider_b =
     \<lparr> p_userId = ''u1'', p_providerId = ''Anthropic'', p_isEnabled = True, p_isDefault = False,
       p_baseUrl = None, p_envVarName = Some ''ANTHROPIC_API_KEY'', p_apiKey = Some ''kb'',
       p_headers = None, p_models = [model_b] \<rparr>"

definition user1 :: user where
  "user1 = \<lparr> u_id = ''u1'', u_githubToken = None \<rparr>"

definition body1 :: post_body where
  "body1 =
     \<lparr> b_name = Some ''demo'', b_githubRepo = Some ''https://example.com/org/repo.git'',
       b_githubBranch = None \<rparr>"

subsection \<open>Reading the log of requests\<close>

text \<open>
  The requests \<^verbatim>\<open>pullImageIfNeeded\<close> issues for an image: the listing, and the pull
  when the listing is rejected or does not show the image.
\<close>

definition pull_requests :: "env \<Rightarrow> world \<Rightarrow> string \<Rightarrow> request list" where
  "pull_requests env s i =
     ListImages i # (if fault env (ListImages i) \<or> i \<notin> set (images s) then [PullImage i] else [])"



text \<open>
  A computation \<open>issues P\<close> when, from every world, it leaves the rows of the store as they
  are and adds to the log only requests that satisfy \<open>P\<close>.
\<close>

definition extends :: "(request \<Rightarrow> bool) \<Rightarrow> world \<Rightarrow> world \<Rightarrow> bool" where
  "extends P s s' =
     (records s' = records s \<and> (\<exists>mid. calls s' = calls s @ mid \<and> list_all P mid))"

definition issues :: "(request \<Rightarrow> bool) \<Rightarrow> 'a io \<Rightarrow> bool" where
  "issues P m = (\<forall>s. extends P s (snd (m s)))"

text \<open>
  A world in which workspace \<^verbatim>\<open>w1\<close> is up: its two service containers run, attached
  to its network and mounting its volumes.
\<close>

definition service_container :: "string \<Rightarrow> container" where
  "service_container n =
     \<lparr> c_name = n, c_image = ''image'', c_user = None, c_entrypoint = [], c_cmd = [],
       c_env = [], c_ports = [],
       c_binds = [(''workspace-w1-data'', ''/workspace'')],
       c_networks = [''workspace-w1'', ''open-web-agent-2_web''], c_restart = None,
       c_memory = None, c_nanocpus = None, c_labels = [(''workspace.id'', ''w1'')],
       c_running = True \<rparr>"

definition running_world :: world where
  "running_world =
     \<lparr> containers = [service_container ''code-server-w1'', service_container ''opencode-w1''],
       networks = [''open-web-agent-2_web'', ''workspace-w1''],
       volumes = [(''workspace-w1-data'', [(''workspace.id'', ''w1'')]),
                  (''workspace-w1-opencode'', [(''workspace.id'', ''w1'')])],
       images = [], in_flight = [], records = [(''w1'', Running)], calls = [] \<rparr>"

text \<open>
  Worlds in which workspace \<^verbatim>\<open>w1\<close> is not alone: \<open>running_world\<close> with the service
  containers gone and a running container of another name on the workspace's network and
  data volume; a world without the workspace's network and volumes that holds such a
  container; and one that holds a stale editor container of workspace \<^verbatim>\<open>w1\<close>.
\<close>

definition shared_world :: world where
  "shared_world = running_world\<lparr>containers := [service_container ''other'']\<rparr>"



section \<open>Lemmas\<close>

named_theorems frame

subsection \<open>Strings\<close>

lemma split_at_first_none: "\<not> sublist pat s \<Longrightarrow> split_at_first pat s = None"
proof (induction s)
  case Nil
  then show ?case by auto
next
  case (Cons c cs)
  have np: "\<not> prefix pat (c # cs)"
    using Cons.prems by (auto dest: prefix_imp_sublist)
  have "\<not> sublist pat cs"
    using Cons.prems by (auto simp: sublist_Cons_right)
  with Cons.IH np show ?case by simp
qed

lemma prefix_first_occurrence:
  assumes "prefix pat (b @ pat @ a)" and "b \<noteq> []" and "pat \<noteq> []"
  shows "sublist pat (b @ butlast pat)"
proof -
  have len: "length pat \<le> length (b @ butlast pat)"
    using assms by (cases b) auto
  have "pat = take (length pat) (b @ pat @ a)"
    using assms(1) by (metis append_eq_conv_conj prefix_def)
  also have "b @ pat @ a = (b @ butlast pat) @ ([last pat] @ a)"
    using assms(3) by simp
  also have "take (length pat) \<dots> = take (length pat) (b @ butlast pat)"
    using len by (simp del: append_assoc)
  finally have "prefix pat (b @ butlast pat)"
    by (metis take_is_prefix)
  then show ?thesis by (rule prefix_imp_sublist)
qed

lemma split_at_first_some:
  "pat \<noteq> [] \<Longrightarrow> \<not> sublist pat (b @ butlast pat) \<Longrightarrow>
     split_at_first pat (b @ pat @ a) = Some (b, a)"
proof (induction b)
  case Nil
  then show ?case by (cases pat) auto
next
  case (Cons x b)
  have np: "\<not> prefix pat ((x # b) @ pat @ a)"
    using prefix_first_occurrence[of pat "x # b" a] Cons.prems by blast
  have "\<not> sublist pat (b @ butlast pat)"
    using Cons.prems(2) by (auto simp: sublist_Cons_right)
  with Cons.IH Cons.prems(1) np show ?case by simp
qed

lemma get_substitution_plain: "CHR ''$'' \<notin> set r \<Longrightarrow> get_substitution m b a r = r"
  by (induction m b a r rule: get_substitution.induct) auto

lemma get_substitution_https:
  "get_substitution m b a (''https://'' @ r) = ''https://'' @ get_substitution m b a r"
  by (cases r) simp_all

lemma suffix_append_long:
  "length xs \<le> length zs \<Longrightarrow> suffix xs (ys @ zs) = suffix xs zs"
proof -
  have "prefix (rev xs) (rev zs @ rev ys) = prefix (rev xs) (rev zs)"
    if "length xs \<le> length zs"
    using that prefix_length_prefix[of "rev xs" "rev zs @ rev ys" "rev zs"]
      prefix_prefix[of "rev xs" "rev zs" "rev ys"]
    by auto
  then show "length xs \<le> length zs \<Longrightarrow> suffix xs (ys @ zs) = suffix xs zs"
    by (simp add: suffix_to_prefix)
qed

lemma find_Some_D: "find P xs = Some x \<Longrightarrow> x \<in> set xs \<and> P x"
  by (induction xs) (auto split: if_splits)

lemma find_None_iff_list_ex: "(find P xs = None) = (\<not> list_ex P xs)"
  by (induction xs) auto

lemma cfg_model_fold: "cfg_model (fold add_provider xs c) = cfg_model c"
  by (induction xs arbitrary: c) (simp_all add: add_provider_def Let_def)

lemma cfg_model_opencodeConfig: "cfg_model (opencodeConfig ps) = default_model ps"
  by (simp add: opencodeConfig_def Let_def cfg_model_fold)

subsection \<open>Sequencing\<close>

lemma swallow_apply: "swallow m s = (Inr (), snd (m s))"
  by (simp add: swallow_def split: prod.splits)


lemma andThen_Inl:
  assumes "andThen m f s = (Inl e, s')"
  obtains "m s = (Inl e, s')" | x s1 where "m s = (Inr x, s1)" and "f x s1 = (Inl e, s')"
  using assms by (auto simp: andThen_def split: prod.splits sum.splits)



lemma try_catch_ok: "m s = (Inr x, s1) \<Longrightarrow> try_catch m h s = (Inr x, s1)"
  by (simp add: try_catch_def)

lemma try_catch_fail: "m s = (Inl e, s1) \<Longrightarrow> try_catch m h s = h e s1"
  by (simp add: try_catch_def)

lemma issue_apply:
  "issue env r body s =
     (if fault env r then (Inl (Unreachable r), s\<lparr>calls := calls s @ [r]\<rparr>)
      else body (s\<lparr>calls := calls s @ [r]\<rparr>))"
  by (simp add: issue_def Let_def)

subsection \<open>What each request leaves untouched\<close>

lemma set_running_fields [simp]:
  "networks (set_running n b s) = networks s"
  "volumes (set_running n b s) = volumes s"
  "images (set_running n b s) = images s"
  "records (set_running n b s) = records s"
  "calls (set_running n b s) = calls s"
  "containers (set_running n b s) = map (\<lambda>c. if c_name c = n then c\<lparr>c_running := b\<rparr> else c) (containers s)"
  by (simp_all add: set_running_def)

lemma listImages_frame [frame]:
  "containers (snd (listImages env i s)) = containers s"
  "networks (snd (listImages env i s)) = networks s"
  "volumes (snd (listImages env i s)) = volumes s"
  "records (snd (listImages env i s)) = records s"
  "images (snd (listImages env i s)) = images s"
  "calls (snd (listImages env i s)) = calls s @ [ListImages i]"
  by (simp_all add: listImages_def issue_apply)

lemma pullImage_frame [frame]:
  "containers (snd (pullImage env i s)) = containers s"
  "networks (snd (pullImage env i s)) = networks s"
  "volumes (snd (pullImage env i s)) = volumes s"
  "records (snd (pullImage env i s)) = records s"
  "calls (snd (pullImage env i s)) = calls s @ [PullImage i]"
  by (simp_all add: pullImage_def issue_apply)

lemma pullImageIfNeeded_frame [frame]:
  "containers (snd (pullImageIfNeeded env i s)) = containers s"
  "networks (snd (pullImageIfNeeded env i s)) = networks s"
  "volumes (snd (pullImageIfNeeded env i s)) = volumes s"
  "records (snd (pullImageIfNeeded env i s)) = records s"
  by (simp_all add: pullImageIfNeeded_def image_listed_def andThen_def try_catch_def ret_def
      listImages_def pullImage_def issue_apply split: prod.splits sum.splits)

lemma createVolume_frame [frame]:
  "containers (snd (createVolume env n l s)) = containers s"
  "networks (snd (createVolume env n l s)) = networks s"
  "records (snd (createVolume env n l s)) = records s"
  "calls (snd (createVolume env n l s)) = calls s @ [CreateVolume n]"
  by (simp_all add: createVolume_def issue_apply)

lemma createNetwork_frame [frame]:
  "containers (snd (createNetwork env n s)) = containers s"
  "volumes (snd (createNetwork env n s)) = volumes s"
  "records (snd (createNetwork env n s)) = records s"
  "calls (snd (createNetwork env n s)) = calls s @ [CreateNetwork n]"
  by (simp_all add: createNetwork_def issue_apply)

lemma findSkills_frame [frame]:
  "containers (snd (findSkills env u s)) = containers s"
  "networks (snd (findSkills env u s)) = networks s"
  "volumes (snd (findSkills env u s)) = volumes s"
  "records (snd (findSkills env u s)) = records s"
  "calls (snd (findSkills env u s)) = calls s @ [FindSkills]"
  by (simp_all add: findSkills_def issue_apply)

lemma findProviders_frame [frame]:
  "containers (snd (findProviders env u s)) = containers s"
  "networks (snd (findProviders env u s)) = networks s"
  "volumes (snd (findProviders env u s)) = volumes s"
  "records (snd (findProviders env u s)) = records s"
  "calls (snd (findProviders env u s)) = calls s @ [FindProviders]"
  by (simp_all add: findProviders_def issue_apply)

lemma createContainer_frame [frame]:
  "networks (snd (createContainer env c s)) = networks s"
  "volumes (snd (createContainer env c s)) = volumes s"
  "records (snd (createContainer env c s)) = records s"
  "calls (snd (createContainer env c s)) = calls s @ [CreateContainer (c_name c)]"
  by (simp_all add: createContainer_def issue_apply)

lemma startContainer_frame [frame]:
  "networks (snd (startContainer env n s)) = networks s"
  "volumes (snd (startContainer env n s)) = volumes s"
  "records (snd (startContainer env n s)) = records s"
  "calls (snd (startContainer env n s)) = calls s @ [StartContainer n]"
  by (simp_all add: startContainer_def issue_apply split: option.splits)

lemma waitContainer_frame [frame]:
  "networks (snd (waitContainer env n s)) = networks s"
  "volumes (snd (waitContainer env n s)) = volumes s"
  "records (snd (waitContainer env n s)) = records s"
  "calls (snd (waitContainer env n s)) = calls s @ [WaitContainer n]"
  by (simp_all add: waitContainer_def issue_apply split: option.splits)

lemma logsContainer_frame [frame]:
  "containers (snd (logsContainer env n s)) = containers s"
  "networks (snd (logsContainer env n s)) = networks s"
  "volumes (snd (logsContainer env n s)) = volumes s"
  "records (snd (logsContainer env n s)) = records s"
  "calls (snd (logsContainer env n s)) = calls s @ [LogsContainer n]"
  by (simp_all add: logsContainer_def issue_apply split: option.splits)

lemma stopContainer_frame [frame]:
  "networks (snd (stopContainer env n s)) = networks s"
  "volumes (snd (stopContainer env n s)) = volumes s"
  "records (snd (stopContainer env n s)) = records s"
  "calls (snd (stopContainer env n s)) = calls s @ [StopContainer n]"
  by (simp_all add: stopContainer_def issue_apply split: option.splits)

lemma removeContainer_frame [frame]:
  "networks (snd (removeContainer env n f s)) = networks s"
  "volumes (snd (removeContainer env n f s)) = volumes s"
  "records (snd (removeContainer env n f s)) = records s"
  "calls (snd (removeContainer env n f s)) = calls s @ [RemoveContainer n f]"
  by (simp_all add: removeContainer_def issue_apply split: option.splits)

lemma connectNetwork_frame [frame]:
  "networks (snd (connectNetwork env net n s)) = networks s"
  "volumes (snd (connectNetwork env net n s)) = volumes s"
  "records (snd (connectNetwork env net n s)) = records s"
  "calls (snd (connectNetwork env net n s)) = calls s @ [ConnectNetwork net n]"
  by (simp_all add: connectNetwork_def issue_apply split: option.splits)

lemma removeNetwork_frame [frame]:
  "containers (snd (removeNetwork env n s)) = containers s"
  "volumes (snd (removeNetwork env n s)) = volumes s"
  "records (snd (removeNetwork env n s)) = records s"
  "calls (snd (removeNetwork env n s)) = calls s @ [RemoveNetwork n]"
  by (simp_all add: removeNetwork_def issue_apply)

lemma removeVolume_frame [frame]:
  "containers (snd (removeVolume env n s)) = containers s"
  "networks (snd (removeVolume env n s)) = networks s"
  "records (snd (removeVolume env n s)) = records s"
  "calls (snd (removeVolume env n s)) = calls s @ [RemoveVolume n]"
  by (simp_all add: removeVolume_def issue_apply)

subsection \<open>Teardown, applied\<close>

lemma stopWorkspaceContainer_apply:
  "stopWorkspaceContainer env w s =
     (Inr Success,
      snd (stopContainer env (opencode_name w) (snd (stopContainer env (code_server_name w) s))))"
  by (simp add: stopWorkspaceContainer_def try_catch_def andThen_def promise_all_def
      swallow_apply ret_def)

lemma startWorkspaceContainer_apply:
  "startWorkspaceContainer env w s =
     (Inr Success,
      snd (startContainer env (opencode_name w) (snd (startContainer env (code_server_name w) s))))"
  by (simp add: startWorkspaceContainer_def try_catch_def andThen_def promise_all_def
      swallow_apply ret_def)

lemma cleanupWorkspace_apply:
  "cleanupWorkspace env w s =
     (Inr (), snd (removeVolume env (opencode_volume w)
               (snd (removeVolume env (data_volume w)
                 (snd (removeNetwork env (network_name w)
                   (snd (removeContainer env (init_name w) True s))))))))"
  by (simp add: cleanupWorkspace_def andThen_def swallow_apply)

lemma removeWorkspaceContainer_apply:
  "removeWorkspaceContainer env w s =
     (Inr Success,
      snd (cleanupWorkspace env w
        (snd (removeContainer env (opencode_name w) True
          (snd (removeContainer env (code_server_name w) True
            (snd (stopWorkspaceContainer env w s))))))))"
  by (simp add: removeWorkspaceContainer_def try_catch_def andThen_def promise_all_def
      swallow_apply ret_def stopWorkspaceContainer_apply cleanupWorkspace_apply)

lemma cleanupWorkspace_calls:
  "calls (snd (cleanupWorkspace env w s)) = calls s @ cleanup_requests w"
  by (simp add: cleanupWorkspace_apply cleanup_requests_def frame)

subsection \<open>Containers by name\<close>

lemma find_container_calls [simp]: "find_container n (s\<lparr>calls := x\<rparr>) = find_container n s"
  by (simp add: find_container_def)

lemma network_busy_calls [simp]: "network_busy n (s\<lparr>calls := x\<rparr>) = network_busy n s"
  by (simp add: network_busy_def)

lemma volume_mounted_calls [simp]: "volume_mounted n (s\<lparr>calls := x\<rparr>) = volume_mounted n s"
  by (simp add: volume_mounted_def)

lemma find_container_None: "(find_container n s = None) = (n \<notin> c_name ` set (containers s))"
  by (auto simp: find_container_def find_None_iff)

lemma filter_other_names:
  "n \<notin> c_name ` set cs \<Longrightarrow> filter (\<lambda>c. c_name c \<noteq> n) cs = cs"
  by (induction cs) auto

lemma filter_absent: "n \<notin> set xs \<Longrightarrow> filter (\<lambda>x. x \<noteq> n) xs = xs"
  by (induction xs) auto

lemma filter_absent_fst: "n \<notin> fst ` set xs \<Longrightarrow> filter (\<lambda>v. fst v \<noteq> n) xs = xs"
  by (induction xs) auto

lemma map_running_names [simp]:
  "map c_name (map (\<lambda>c. if c_name c = n then c\<lparr>c_running := b\<rparr> else c) cs) = map c_name cs"
  by (induction cs) auto

lemma removeContainer_forced [frame]:
  "\<not> fault env (RemoveContainer n True) \<Longrightarrow>
     containers (snd (removeContainer env n True s)) = filter (\<lambda>c. c_name c \<noteq> n) (containers s)"
  by (auto simp: removeContainer_def issue_apply find_container_None filter_other_names
      split: option.splits)

lemma removeContainer_subset:
  "set (containers (snd (removeContainer env n f s))) \<subseteq> set (containers s)"
  by (auto simp: removeContainer_def issue_apply split: option.splits)

lemma removeContainer_absent:
  "find_container n s = None \<Longrightarrow> containers (snd (removeContainer env n f s)) = containers s"
  by (simp add: removeContainer_def issue_apply)

lemma stopContainer_absent:
  "find_container n s = None \<Longrightarrow> containers (snd (stopContainer env n s)) = containers s"
  by (simp add: stopContainer_def issue_apply)

lemma startContainer_absent:
  "find_container n s = None \<Longrightarrow> containers (snd (startContainer env n s)) = containers s"
  by (simp add: startContainer_def issue_apply)

lemma removeNetwork_absent:
  "n \<notin> set (networks s) \<Longrightarrow> networks (snd (removeNetwork env n s)) = networks s"
  by (simp add: removeNetwork_def issue_apply)

lemma removeVolume_absent:
  "n \<notin> set (map fst (volumes s)) \<Longrightarrow> volumes (snd (removeVolume env n s)) = volumes s"
  by (simp add: removeVolume_def issue_apply)

lemma removeNetwork_idle:
  "\<not> fault env (RemoveNetwork n) \<Longrightarrow> \<not> network_busy n s \<Longrightarrow>
     networks (snd (removeNetwork env n s)) = filter (\<lambda>x. x \<noteq> n) (networks s)"
  by (simp add: removeNetwork_def issue_apply filter_absent)

lemma removeVolume_idle:
  "\<not> fault env (RemoveVolume n) \<Longrightarrow> \<not> volume_mounted n s \<Longrightarrow>
     volumes (snd (removeVolume env n s)) = filter (\<lambda>v. fst v \<noteq> n) (volumes s)"
  by (simp add: removeVolume_def issue_apply filter_absent_fst)

subsection \<open>Isolation\<close>

lemma foreign_user_running [simp]: "foreign_user w (c\<lparr>c_running := b\<rparr>) = foreign_user w c"
  by (simp add: foreign_user_def)

lemma isolated_iff: "isolated w s = (\<forall>c \<in> set (containers s). \<not> foreign_user w c)"
  by (simp add: isolated_def list_ex_iff)

lemma isolated_subset:
  "isolated w s \<Longrightarrow> set (containers s') \<subseteq> set (containers s) \<Longrightarrow> isolated w s'"
  by (auto simp: isolated_iff)

lemma list_ex_foreign_running:
  "list_ex (foreign_user w) (map (\<lambda>c. if c_name c = n then c\<lparr>c_running := b\<rparr> else c) cs)
     = list_ex (foreign_user w) cs"
  by (induction cs) auto

lemma isolated_calls [simp]: "isolated w (s\<lparr>calls := x\<rparr>) = isolated w s"
  by (simp add: isolated_def)

lemma isolated_set_running [simp]: "isolated w (set_running n b s) = isolated w s"
  by (simp add: isolated_def list_ex_foreign_running)

lemma isolated_stopContainer [simp]: "isolated w (snd (stopContainer env n s)) = isolated w s"
  by (simp add: stopContainer_def issue_apply split: option.splits)

lemma names_stopContainer [simp]:
  "map c_name (containers (snd (stopContainer env n s))) = map c_name (containers s)"
  by (simp add: stopContainer_def issue_apply split: option.splits)

subsection \<open>Cleanup clears an isolated workspace\<close>

lemma cleanup_clears:
  assumes ans: "cleanup_answered env w"
    and iso: "isolated w s"
    and cs: "code_server_name w \<notin> set (map c_name (containers s))"
    and oc: "opencode_name w \<notin> set (map c_name (containers s))"
  shows "no_resources w (snd (cleanupWorkspace env w s))"
proof -
  define sA where "sA = snd (removeContainer env (init_name w) True s)"
  define sB where "sB = snd (removeNetwork env (network_name w) sA)"
  define sC where "sC = snd (removeVolume env (data_volume w) sB)"
  define sD where "sD = snd (removeVolume env (opencode_volume w) sC)"
  have fin: "snd (cleanupWorkspace env w s) = sD"
    by (simp add: cleanupWorkspace_apply sA_def sB_def sC_def sD_def)
  have cA: "containers sA = filter (\<lambda>c. c_name c \<noteq> init_name w) (containers s)"
    using ans by (simp add: sA_def cleanup_answered_def frame)
  have own: "c_name c \<notin> {init_name w, code_server_name w, opencode_name w}"
    if "c \<in> set (containers sA)" for c
    using that cs oc by (auto simp: cA image_iff)
  have nofor: "\<not> foreign_user w c" if "c \<in> set (containers sA)" for c
    using that iso by (auto simp: cA isolated_iff)
  have idle: "\<not> network_busy (network_name w) sA"
    using own nofor by (auto simp: network_busy_def list_ex_iff foreign_user_def)
  have cB: "containers sB = containers sA" by (simp add: sB_def frame)
  have cC: "containers sC = containers sA" by (simp add: sC_def frame cB)
  have cD: "containers sD = containers sA" by (simp add: sD_def frame cC)
  have um1: "\<not> volume_mounted (data_volume w) sB"
    using own nofor by (auto simp: volume_mounted_def list_ex_iff foreign_user_def cB)
  have um2: "\<not> volume_mounted (opencode_volume w) sC"
    using own nofor by (auto simp: volume_mounted_def list_ex_iff foreign_user_def cC)
  have nB: "networks sB = filter (\<lambda>x. x \<noteq> network_name w) (networks sA)"
    using ans idle by (simp add: sB_def cleanup_answered_def removeNetwork_idle)
  have nD: "networks sD = networks sB" by (simp add: sD_def sC_def frame)
  have vC: "volumes sC = filter (\<lambda>v. fst v \<noteq> data_volume w) (volumes sB)"
    using ans um1 by (simp add: sC_def cleanup_answered_def removeVolume_idle)
  have vD: "volumes sD = filter (\<lambda>v. fst v \<noteq> opencode_volume w) (volumes sC)"
    using ans um2 by (simp add: sD_def cleanup_answered_def removeVolume_idle)
  have "workspace_containers w sD = []"
    using own by (auto simp: workspace_containers_def cD filter_empty_conv)
  moreover have "workspace_networks w sD = []"
    by (auto simp: workspace_networks_def nD nB filter_empty_conv)
  moreover have "workspace_volumes w sD = []"
    by (auto simp: workspace_volumes_def vD vC filter_empty_conv)
  ultimately show ?thesis by (simp add: no_resources_def fin)
qed

subsection \<open>What a request that succeeded has done\<close>










lemma connectNetwork_ok:
  "connectNetwork env net n s = (Inr x, s') \<Longrightarrow>
     containers s' =
       map (\<lambda>c. if c_name c = n then c\<lparr>c_networks := c_networks c @ [net]\<rparr> else c) (containers s)
     \<and> find_container n s \<noteq> None
     \<and> networks s' = networks s \<and> volumes s' = volumes s \<and> records s' = records s
     \<and> calls s' = calls s @ [ConnectNetwork net n]"
  by (auto simp: connectNetwork_def issue_apply split: if_splits option.splits)


lemma promise_all_three_state:
  "snd (promise_all [(ta, a), (tb, b), (tc, c)] s) = snd (c (snd (b (snd (a s)))))"
  by (simp add: promise_all_def split: prod.splits option.splits)

lemma image_listed_apply:
  "image_listed env i s
     = (Inr (\<not> fault env (ListImages i) \<and> i \<in> set (images s)),
        s\<lparr>calls := calls s @ [ListImages i]\<rparr>)"
proof -
  have e: "(filter (\<lambda>x. x = i) (images s) = []) = (i \<notin> set (images s))"
    by (auto simp: filter_empty_conv)
  show ?thesis
    by (simp add: image_listed_def andThen_def try_catch_def ret_def listImages_def
        issue_apply e)
qed

lemma pullImageIfNeeded_calls:
  "calls (snd (pullImageIfNeeded env i s)) = calls s @ pull_requests env s i"
  by (simp add: pullImageIfNeeded_def image_listed_apply andThen_def ret_def pullImage_def
      issue_apply pull_requests_def)

lemma pull_images_frame [frame]:
  "containers (snd (pull_images env s)) = containers s"
  "networks (snd (pull_images env s)) = networks s"
  "volumes (snd (pull_images env s)) = volumes s"
  "records (snd (pull_images env s)) = records s"
  by (simp_all add: pull_images_def image_listed_apply Let_def split: option.splits)

lemma pull_images_calls:
  "\<exists>ps. calls (snd (pull_images env s))
     = calls s @ [ListImages gitImage, ListImages codeServerImage, ListImages opencodeImage]
         @ map PullImage ps"
  by (cases "first_rejection (pull_results env
        [(gitImage, \<not> fault env (ListImages gitImage) \<and> gitImage \<in> set (images s)),
         (codeServerImage,
            \<not> fault env (ListImages codeServerImage) \<and> codeServerImage \<in> set (images s)),
         (opencodeImage,
            \<not> fault env (ListImages opencodeImage) \<and> opencodeImage \<in> set (images s))])")
    (simp_all add: pull_images_def image_listed_apply Let_def, blast+)







lemma c_name_init [simp]: "c_name (init_container config) = init_name (workspaceId config)"
  by (simp add: init_container_def Let_def)

lemma c_name_code_server [simp]:
  "c_name (code_server_container env config) = code_server_name (workspaceId config)"
  by (simp add: code_server_container_def Let_def)

lemma c_name_opencode [simp]:
  "c_name (opencode_container env config skills providers) = opencode_name (workspaceId config)"
  by (simp add: opencode_container_def Let_def)






subsection \<open>Removing twice\<close>

lemma stop_state [simp]:
  "isolated w (snd (stopWorkspaceContainer env w' s)) = isolated w s"
  by (simp add: stopWorkspaceContainer_apply)

lemma remove_clears:
  assumes ans: "teardown_answered env w" and iso: "isolated w s"
  shows "no_resources w (snd (removeWorkspaceContainer env w s))
    \<and> isolated w (snd (removeWorkspaceContainer env w s))"
proof -
  define s1 where "s1 = snd (stopWorkspaceContainer env w s)"
  define s2 where "s2 = snd (removeContainer env (code_server_name w) True s1)"
  define s3 where "s3 = snd (removeContainer env (opencode_name w) True s2)"
  have fin: "snd (removeWorkspaceContainer env w s) = snd (cleanupWorkspace env w s3)"
    by (simp add: removeWorkspaceContainer_apply s1_def s2_def s3_def)
  have iso1: "isolated w s1" using iso by (simp add: s1_def)
  have c2: "containers s2 = filter (\<lambda>c. c_name c \<noteq> code_server_name w) (containers s1)"
    using ans by (simp add: s2_def teardown_answered_def frame)
  have c3: "containers s3 = filter (\<lambda>c. c_name c \<noteq> opencode_name w) (containers s2)"
    using ans by (simp add: s3_def teardown_answered_def frame)
  have iso3: "isolated w s3"
    using iso1 by (rule isolated_subset) (auto simp: c3 c2)
  have n1: "code_server_name w \<notin> set (map c_name (containers s3))"
    by (auto simp: c3 c2)
  have n2: "opencode_name w \<notin> set (map c_name (containers s3))"
    by (auto simp: c3 c2)
  have ca: "cleanup_answered env w"
    using ans by (simp add: teardown_answered_def cleanup_answered_def)
  have "no_resources w (snd (cleanupWorkspace env w s3))"
    using ca iso3 n1 n2 by (rule cleanup_clears)
  moreover have "set (containers (snd (cleanupWorkspace env w s3))) \<subseteq> set (containers s3)"
    using removeContainer_subset[of env "init_name w" True s3]
    by (simp add: cleanupWorkspace_apply frame)
  ultimately show ?thesis
    using isolated_subset[OF iso3] by (simp add: fin)
qed

subsection \<open>Teardown of a workspace that is gone\<close>

lemma no_resources_absent:
  assumes "no_resources w s"
  shows "find_container (init_name w) s = None"
    and "find_container (code_server_name w) s = None"
    and "find_container (opencode_name w) s = None"
    and "network_name w \<notin> set (networks s)"
    and "data_volume w \<notin> set (map fst (volumes s))"
    and "opencode_volume w \<notin> set (map fst (volumes s))"
  using assms
  by (auto simp: no_resources_def workspace_containers_def workspace_networks_def
      workspace_volumes_def filter_empty_conv find_container_None)

lemma stop_absent:
  assumes "no_resources w s"
  shows "containers (snd (stopWorkspaceContainer env w s)) = containers s"
  using no_resources_absent[OF assms]
  by (simp add: stopWorkspaceContainer_apply stopContainer_absent find_container_def)

lemma start_absent:
  assumes "no_resources w s"
  shows "containers (snd (startWorkspaceContainer env w s)) = containers s"
  using no_resources_absent[OF assms]
  by (simp add: startWorkspaceContainer_apply startContainer_absent find_container_def)

lemma remove_absent:
  assumes "no_resources w s"
  shows "containers (snd (removeWorkspaceContainer env w s)) = containers s
    \<and> networks (snd (removeWorkspaceContainer env w s)) = networks s
    \<and> volumes (snd (removeWorkspaceContainer env w s)) = volumes s"
proof -
  note a = no_resources_absent[OF assms]
  define s1 where "s1 = snd (stopWorkspaceContainer env w s)"
  define s2 where "s2 = snd (removeContainer env (code_server_name w) True s1)"
  define s3 where "s3 = snd (removeContainer env (opencode_name w) True s2)"
  define s4 where "s4 = snd (removeContainer env (init_name w) True s3)"
  define s5 where "s5 = snd (removeNetwork env (network_name w) s4)"
  define s6 where "s6 = snd (removeVolume env (data_volume w) s5)"
  define s7 where "s7 = snd (removeVolume env (opencode_volume w) s6)"
  have fin: "snd (removeWorkspaceContainer env w s) = s7"
    by (simp add: removeWorkspaceContainer_apply cleanupWorkspace_apply s1_def s2_def s3_def
        s4_def s5_def s6_def s7_def)
  have c1: "containers s1 = containers s" unfolding s1_def using assms by (rule stop_absent)
  have c2: "containers s2 = containers s"
    using a c1 by (simp add: s2_def removeContainer_absent find_container_def)
  have c3: "containers s3 = containers s"
    using a c2 by (simp add: s3_def removeContainer_absent find_container_def)
  have c4: "containers s4 = containers s"
    using a c3 by (simp add: s4_def removeContainer_absent find_container_def)
  have c7: "containers s7 = containers s"
    using c4 by (simp add: s7_def s6_def s5_def frame)
  have n4: "networks s4 = networks s"
    by (simp add: s4_def s3_def s2_def s1_def stopWorkspaceContainer_apply frame)
  have n5: "networks s5 = networks s"
    using a n4 by (simp add: s5_def removeNetwork_absent)
  have n7: "networks s7 = networks s"
    using n5 by (simp add: s7_def s6_def frame)
  have v5: "volumes s5 = volumes s"
    by (simp add: s5_def s4_def s3_def s2_def s1_def stopWorkspaceContainer_apply frame)
  have v6: "volumes s6 = volumes s"
    using a v5 by (simp add: s6_def removeVolume_absent)
  have v7: "volumes s7 = volumes s"
    using a v6 by (simp add: s7_def removeVolume_absent)
  show ?thesis using c7 n7 v7 by (simp add: fin)
qed

subsection \<open>Teardown that the runtime does not carry out\<close>

lemma removeNetwork_rejected:
  "fault env (RemoveNetwork n) \<Longrightarrow> networks (snd (removeNetwork env n s)) = networks s"
  by (simp add: removeNetwork_def issue_apply)

lemma removeNetwork_busy:
  "network_busy n s \<Longrightarrow> networks (snd (removeNetwork env n s)) = networks s"
  by (simp add: removeNetwork_def issue_apply)

lemma removeVolume_mounted:
  "volume_mounted n s \<Longrightarrow> volumes (snd (removeVolume env n s)) = volumes s"
  by (simp add: removeVolume_def issue_apply)

lemma cleanup_network_rejected:
  "fault env (RemoveNetwork (network_name w)) \<Longrightarrow>
     networks (snd (cleanupWorkspace env w s)) = networks s"
  by (simp add: cleanupWorkspace_apply frame removeNetwork_rejected)

lemma remove_network_rejected:
  "fault env (RemoveNetwork (network_name w)) \<Longrightarrow>
     networks (snd (removeWorkspaceContainer env w s)) = networks s"
  by (simp add: removeWorkspaceContainer_apply stopWorkspaceContainer_apply
      cleanup_network_rejected frame)

lemma network_remains:
  "network_name w \<in> set (networks s) \<Longrightarrow> \<not> no_resources w s"
  by (auto simp: no_resources_def workspace_networks_def filter_empty_conv)



lemma busy_cong: "containers s' = containers s \<Longrightarrow> network_busy n s' = network_busy n s"
  by (simp add: network_busy_def)

lemma remove_shared:
  assumes a: "find_container (code_server_name w) s = None"
    "find_container (opencode_name w) s = None" "find_container (init_name w) s = None"
    and busy: "network_busy (network_name w) s"
  shows "networks (snd (removeWorkspaceContainer env w s)) = networks s
    \<and> containers (snd (removeWorkspaceContainer env w s)) = containers s"
proof -
  define s1 where "s1 = snd (stopWorkspaceContainer env w s)"
  define s2 where "s2 = snd (removeContainer env (code_server_name w) True s1)"
  define s3 where "s3 = snd (removeContainer env (opencode_name w) True s2)"
  define s4 where "s4 = snd (removeContainer env (init_name w) True s3)"
  define s5 where "s5 = snd (removeNetwork env (network_name w) s4)"
  have fin: "snd (removeWorkspaceContainer env w s)
      = snd (removeVolume env (opencode_volume w) (snd (removeVolume env (data_volume w) s5)))"
    by (simp add: removeWorkspaceContainer_apply cleanupWorkspace_apply s1_def s2_def s3_def
        s4_def s5_def)
  have c1: "containers s1 = containers s"
    using a by (simp add: s1_def stopWorkspaceContainer_apply stopContainer_absent
        find_container_def)
  have c2: "containers s2 = containers s"
    using a c1 by (simp add: s2_def removeContainer_absent find_container_def)
  have c3: "containers s3 = containers s"
    using a c2 by (simp add: s3_def removeContainer_absent find_container_def)
  have c4: "containers s4 = containers s"
    using a c3 by (simp add: s4_def removeContainer_absent find_container_def)
  have n4: "networks s4 = networks s"
    by (simp add: s4_def s3_def s2_def s1_def stopWorkspaceContainer_apply frame)
  have "network_busy (network_name w) s4"
    using busy busy_cong[OF c4] by simp
  then have n5: "networks s5 = networks s"
    using n4 by (simp add: s5_def removeNetwork_busy)
  have c5: "containers s5 = containers s"
    using c4 by (simp add: s5_def frame)
  show ?thesis using n5 c5 by (simp add: fin frame)
qed




lemma teardown_network_rejected:
  "fst (removeWorkspaceContainer network_rejected_env ''w1'' running_world) = Inr Success
   \<and> fst (removeWorkspaceContainer network_rejected_env ''w1''
          (snd (removeWorkspaceContainer network_rejected_env ''w1'' running_world))) = Inr Success
   \<and> ''workspace-w1''
       \<in> set (networks (snd (removeWorkspaceContainer network_rejected_env ''w1''
            (snd (removeWorkspaceContainer network_rejected_env ''w1'' running_world)))))
   \<and> \<not> no_resources ''w1''
        (snd (removeWorkspaceContainer network_rejected_env ''w1''
           (snd (removeWorkspaceContainer network_rejected_env ''w1'' running_world))))"
proof -
  have rej: "fault network_rejected_env (RemoveNetwork (network_name ''w1''))"
    by (simp add: network_rejected_env_def network_name_def)
  have n: "networks (snd (removeWorkspaceContainer network_rejected_env ''w1''
            (snd (removeWorkspaceContainer network_rejected_env ''w1'' running_world))))
      = networks running_world"
    by (simp add: remove_network_rejected[OF rej])
  have "network_name ''w1'' \<in> set (networks running_world)"
    by (simp add: running_world_def network_name_def)
  then show ?thesis
    using n network_remains[of "''w1''"]
    by (simp add: removeWorkspaceContainer_apply network_name_def)
qed

lemma teardown_shared_network:
  "isolated ''w1'' shared_world = False
   \<and> ''workspace-w1''
       \<in> set (networks (snd (removeWorkspaceContainer quiet_env ''w1''
            (snd (removeWorkspaceContainer quiet_env ''w1'' shared_world)))))"
proof -
  have a: "find_container (code_server_name ''w1'') shared_world = None"
    "find_container (opencode_name ''w1'') shared_world = None"
    "find_container (init_name ''w1'') shared_world = None"
    by (simp_all add: find_container_def shared_world_def running_world_def
        service_container_def code_server_name_def opencode_name_def init_name_def)
  have busy: "network_busy (network_name ''w1'') shared_world"
    by (simp add: network_busy_def shared_world_def running_world_def service_container_def
        network_name_def)
  note one = remove_shared[OF a busy, of quiet_env]
  define t where "t = snd (removeWorkspaceContainer quiet_env ''w1'' shared_world)"
  have ct: "containers t = containers shared_world" and nt: "networks t = networks shared_world"
    using one by (simp_all add: t_def)
  have a': "find_container (code_server_name ''w1'') t = None"
    "find_container (opencode_name ''w1'') t = None"
    "find_container (init_name ''w1'') t = None"
    using a ct by (simp_all add: find_container_def)
  have busy': "network_busy (network_name ''w1'') t"
    using busy busy_cong[OF ct] by simp
  have "networks (snd (removeWorkspaceContainer quiet_env ''w1'' t)) = networks shared_world"
    using remove_shared[OF a' busy', of quiet_env] nt by simp
  moreover have "isolated ''w1'' shared_world = False"
    by (simp add: isolated_def shared_world_def running_world_def service_container_def
        foreign_user_def init_name_def code_server_name_def opencode_name_def network_name_def)
  ultimately show ?thesis
    by (simp add: t_def shared_world_def running_world_def)
qed

subsection \<open>What a computation adds to the log\<close>

lemma extends_refl: "extends P s s"
  by (simp add: extends_def)

lemma extends_trans: "extends P a b \<Longrightarrow> extends P b c \<Longrightarrow> extends P a c"
  by (auto simp: extends_def)

lemma extends_calls: "extends P s (s\<lparr>calls := calls s @ [r]\<rparr>) = P r"
  by (simp add: extends_def)

lemma issues_ret: "issues P (ret x)"
  by (simp add: issues_def ret_def extends_refl)

lemma issues_throw: "issues P (throw e)"
  by (simp add: issues_def throw_def extends_refl)

lemma issues_andThen:
  assumes "issues P m" and "\<And>x. issues P (f x)"
  shows "issues P (andThen m f)"
  unfolding issues_def
proof
  fix s
  obtain r s1 where m: "m s = (r, s1)" by (cases "m s")
  have e1: "extends P s s1" using assms(1) m by (auto simp: issues_def dest: spec[of _ s])
  show "extends P s (snd (andThen m f s))"
  proof (cases r)
    case (Inl e)
    then show ?thesis using m e1 by (simp add: andThen_def)
  next
    case (Inr x)
    have "extends P s1 (snd (f x s1))" using assms(2)[of x] by (simp add: issues_def)
    then show ?thesis using m Inr e1 by (auto simp: andThen_def intro: extends_trans)
  qed
qed

lemma issues_try_catch:
  assumes "issues P m" and "\<And>e. issues P (h e)"
  shows "issues P (try_catch m h)"
  unfolding issues_def
proof
  fix s
  obtain r s1 where m: "m s = (r, s1)" by (cases "m s")
  have e1: "extends P s s1" using assms(1) m by (auto simp: issues_def dest: spec[of _ s])
  show "extends P s (snd (try_catch m h s))"
  proof (cases r)
    case (Inr x)
    then show ?thesis using m e1 by (simp add: try_catch_def)
  next
    case (Inl e)
    have "extends P s1 (snd (h e s1))" using assms(2)[of e] by (simp add: issues_def)
    then show ?thesis using m Inl e1 by (auto simp: try_catch_def intro: extends_trans)
  qed
qed

lemma issues_swallow: "issues P m \<Longrightarrow> issues P (swallow m)"
  by (simp add: issues_def swallow_apply)

lemma issues_if: "issues P a \<Longrightarrow> issues P b \<Longrightarrow> issues P (if c then a else b)"
  by simp

lemma issues_one:
  assumes "\<And>s. records (snd (m s)) = records s" and "\<And>s. calls (snd (m s)) = calls s @ [r]"
    and "P r"
  shows "issues P m"
  using assms by (simp add: issues_def extends_def)

lemma issues_pull_images:
  assumes "\<And>i. P (ListImages i)" and "\<And>i. P (PullImage i)"
  shows "issues P (pull_images env)"
  unfolding issues_def extends_def
proof (intro allI conjI)
  fix s
  show "records (snd (pull_images env s)) = records s" by (simp add: frame)
  obtain ps where "calls (snd (pull_images env s))
     = calls s @ [ListImages gitImage, ListImages codeServerImage, ListImages opencodeImage]
         @ map PullImage ps"
    using pull_images_calls by blast
  moreover have "list_all P ([ListImages gitImage, ListImages codeServerImage,
      ListImages opencodeImage] @ map PullImage ps)"
    using assms by (simp add: list_all_iff)
  ultimately show "\<exists>mid. calls (snd (pull_images env s)) = calls s @ mid \<and> list_all P mid"
    by blast
qed

lemmas issues_primitives =
  issues_one[OF createVolume_frame(3) createVolume_frame(4)]
  issues_one[OF createNetwork_frame(3) createNetwork_frame(4)]
  issues_one[OF findSkills_frame(4) findSkills_frame(5)]
  issues_one[OF findProviders_frame(4) findProviders_frame(5)]
  issues_one[OF createContainer_frame(3) createContainer_frame(4)]
  issues_one[OF startContainer_frame(3) startContainer_frame(4)]
  issues_one[OF waitContainer_frame(3) waitContainer_frame(4)]
  issues_one[OF logsContainer_frame(4) logsContainer_frame(5)]
  issues_one[OF removeContainer_frame(3) removeContainer_frame(4)]
  issues_one[OF connectNetwork_frame(3) connectNetwork_frame(4)]
  issues_one[OF removeNetwork_frame(3) removeNetwork_frame(4)]
  issues_one[OF removeVolume_frame(3) removeVolume_frame(4)]

lemmas issues_rules =
  issues_andThen issues_try_catch issues_swallow issues_if issues_ret issues_throw
  issues_pull_images issues_primitives

lemma issues_cleanup:
  assumes "\<And>r. \<not> store_write r \<Longrightarrow> P r"
  shows "issues P (cleanupWorkspace env w)"
  unfolding cleanupWorkspace_def
  by (intro issues_rules assms) simp_all

lemma issues_prepare:
  assumes "\<And>r. \<not> store_write r \<Longrightarrow> P r"
  shows "issues P (provision_prepare env config)"
  unfolding provision_prepare_def Let_def
  by (intro issues_rules assms) simp_all

lemma issues_services:
  assumes "\<And>r. \<not> store_write r \<Longrightarrow> P r"
  shows "issues P (provision_services env config sp)"
  unfolding provision_services_def Let_def
  by (intro issues_rules assms) simp_all

lemma issues_createWorkspaceContainer:
  assumes "\<And>r. \<not> store_write r \<Longrightarrow> P r"
  shows "issues P (createWorkspaceContainer env config)"
  unfolding createWorkspaceContainer_def
  by (intro issues_rules issues_cleanup issues_prepare issues_services assms)

subsection \<open>The parallel pulls\<close>



lemma filter_creates_pulls [simp]: "filter creates (map PullImage ps) = []"
  by (induction ps) simp_all



lemma filter_creates_cleanup [simp]: "filter creates (cleanup_requests w) = []"
  by (simp add: cleanup_requests_def)






section \<open>The claims\<close>

subsection \<open>C10: the clone URL and the token\<close>

text \<open>
  C10, as stated: with a token, the clone URL is the repository URL with a leading
  \<^verbatim>\<open>https://\<close> replaced by \<^verbatim>\<open>https://<token>@\<close>, and nothing else embeds the
  token. The code replaces the first \<^verbatim>\<open>https://\<close> wherever it stands: for
  \<^verbatim>\<open>git+https://github.com/o/r.git\<close>, which does not start with \<^verbatim>\<open>https://\<close>,
  the token is embedded all the same.
\<close>

theorem clone_url_leading_counterexample:
  "repoUrl (Some ''tok'') ''git+https://github.com/o/r.git'' = ''git+https://tok@github.com/o/r.git''
   \<and> repoUrl_leading_only (Some ''tok'') ''git+https://github.com/o/r.git''
       = ''git+https://github.com/o/r.git''
   \<and> \<not> prefix ''https://'' ''git+https://github.com/o/r.git''"
  by (simp add: repoUrl_def repoUrl_leading_only_def js_replace_def truthy_def)

text \<open>
  C10, amended: with a non-empty token \<open>t\<close>, a repository URL that does not contain
  \<^verbatim>\<open>https://\<close> is cloned unchanged; otherwise the first occurrence of
  \<^verbatim>\<open>https://\<close>, wherever it stands, is followed by the token and \<^verbatim>\<open>@\<close> (the
  token as \<^verbatim>\<open>String.replace\<close> expands it, which is the token itself when it holds
  no dollar sign); and the agent container's environment starts with
  \<^verbatim>\<open>GITHUB_TOKEN=t\<close> and \<^verbatim>\<open>GH_TOKEN=t\<close>.
\<close>

theorem clone_url_first_occurrence:
  assumes "t \<noteq> []"
  shows "(\<not> sublist ''https://'' repo \<longrightarrow> repoUrl (Some t) repo = repo)
    \<and> (\<not> sublist ''https://'' (b @ ''https:/'') \<longrightarrow>
         repoUrl (Some t) (b @ ''https://'' @ a)
           = b @ ''https://'' @ get_substitution ''https://'' b a (t @ ''@'') @ a)
    \<and> (CHR ''$'' \<notin> set t \<longrightarrow> get_substitution ''https://'' b a (t @ ''@'') = t @ ''@'')
    \<and> (githubToken config = Some t \<longrightarrow>
         c_env (opencode_container env config skills providers)
           = (''GITHUB_TOKEN='' @ t) # (''GH_TOKEN='' @ t) # concat (map provider_env providers))"
proof (intro conjI impI)
  assume "\<not> sublist ''https://'' repo"
  then show "repoUrl (Some t) repo = repo"
    using assms by (simp add: repoUrl_def js_replace_def truthy_def split_at_first_none)
next
  assume "\<not> sublist ''https://'' (b @ ''https:/'')"
  then have "split_at_first ''https://'' (b @ ''https://'' @ a) = Some (b, a)"
    using split_at_first_some[of "''https://''" b a] by simp
  then show "repoUrl (Some t) (b @ ''https://'' @ a)
      = b @ ''https://'' @ get_substitution ''https://'' b a (t @ ''@'') @ a"
    using assms get_substitution_https[of "''https://''" b a "t @ ''@''"]
    by (simp add: repoUrl_def js_replace_def truthy_def)
next
  assume "CHR ''$'' \<notin> set t"
  then show "get_substitution ''https://'' b a (t @ ''@'') = t @ ''@''"
    by (simp add: get_substitution_plain)
next
  assume "githubToken config = Some t"
  then show "c_env (opencode_container env config skills providers)
      = (''GITHUB_TOKEN='' @ t) # (''GH_TOKEN='' @ t) # concat (map provider_env providers)"
    using assms by (simp add: opencode_container_def Let_def opencodeEnv_def truthy_def)
qed

theorem clone_url_first_occurrence_witness:
  "repoUrl (Some ''tok'') ''ssh://git@example.com/r.git'' = ''ssh://git@example.com/r.git''
   \<and> repoUrl (Some ''tok'') (''git+'' @ ''https://'' @ ''github.com/o/r.git'')
       = ''git+'' @ ''https://'' @ ''tok@'' @ ''github.com/o/r.git''
   \<and> c_env (opencode_container quiet_env (config1\<lparr>githubToken := Some ''tok''\<rparr>) [] [])
       = [''GITHUB_TOKEN=tok'', ''GH_TOKEN=tok'']"
proof -
  have t: "''tok'' \<noteq> []" by simp
  have n1: "\<not> sublist ''https://'' ''ssh://git@example.com/r.git''"
    by (simp add: sublist_Cons_right)
  have n2: "\<not> sublist ''https://'' (''git+'' @ ''https:/'')"
    by (simp add: sublist_Cons_right)
  have tk: "githubToken (config1\<lparr>githubToken := Some ''tok''\<rparr>) = Some ''tok''" by simp
  show ?thesis
    using clone_url_first_occurrence[OF t, of "''ssh://git@example.com/r.git''" "''git+''"
        "''github.com/o/r.git''" "config1\<lparr>githubToken := Some ''tok''\<rparr>" quiet_env "[]" "[]"]
      n1 n2 tk
    by simp
qed

subsection \<open>C9: the default-model reference\<close>

text \<open>
  C9, as stated: the configuration holds a default-model reference exactly when one
  model among the owner's enabled providers is marked default. With two enabled
  providers that each have a default model, the first being the default provider, two
  models are marked and the reference is there; with one enabled provider that is not
  the default provider, one model is marked and there is no reference.
\<close>

theorem default_model_counterexample:
  "marked_default [provider_a, provider_b] = 2
   \<and> cfg_model (opencodeConfig [provider_a, provider_b]) = Some ''openai/gpt-4o''
   \<and> marked_default [provider_b] = 1
   \<and> cfg_model (opencodeConfig [provider_b]) = None
   \<and> \<not> default_rule_of_spec [provider_a, provider_b]
   \<and> \<not> default_rule_of_spec [provider_b]"
  by (simp add: default_rule_of_spec_def cfg_model_opencodeConfig default_model_def
      marked_default_def provider_a_def provider_b_def model_a_def model_b_def
      toLowerCase_def lower_char_def char_of_eq_iff)

text \<open>
  C9, amended: the configuration holds a default-model reference exactly when some
  enabled provider is marked default and the first such provider has an enabled model
  marked default; the reference is that provider's identifier in lower case, a slash,
  and the identifier of its first model marked default. How many models are marked
  default does not matter.
\<close>

theorem default_model_reference:
  "(cfg_model (opencodeConfig providers) \<noteq> None)
     = (case find p_isDefault providers of
          None \<Rightarrow> False
        | Some p \<Rightarrow> list_ex m_isDefault (p_models p))
   \<and> (\<forall>r. cfg_model (opencodeConfig providers) = Some r \<longrightarrow>
         (\<exists>p m. find p_isDefault providers = Some p \<and> p \<in> set providers \<and> p_isDefault p
            \<and> find m_isDefault (p_models p) = Some m \<and> m \<in> set (p_models p) \<and> m_isDefault m
            \<and> r = toLowerCase (p_providerId p) @ ''/'' @ m_modelId m))"
proof (intro conjI allI impI)
  show "(cfg_model (opencodeConfig providers) \<noteq> None)
     = (case find p_isDefault providers of
          None \<Rightarrow> False
        | Some p \<Rightarrow> list_ex m_isDefault (p_models p))"
  proof (cases "find p_isDefault providers")
    case None
    then show ?thesis by (simp add: cfg_model_opencodeConfig default_model_def)
  next
    case (Some p)
    then show ?thesis
      using find_None_iff_list_ex[of m_isDefault "p_models p"]
      by (cases "find m_isDefault (p_models p)")
        (simp_all add: cfg_model_opencodeConfig default_model_def)
  qed
next
  fix r
  assume "cfg_model (opencodeConfig providers) = Some r"
  then obtain p m where p: "find p_isDefault providers = Some p"
    and m: "find m_isDefault (p_models p) = Some m"
    and r: "r = toLowerCase (p_providerId p) @ ''/'' @ m_modelId m"
    by (auto simp: cfg_model_opencodeConfig default_model_def split: option.splits)
  with find_Some_D[OF p] find_Some_D[OF m]
  show "\<exists>p m. find p_isDefault providers = Some p \<and> p \<in> set providers \<and> p_isDefault p
      \<and> find m_isDefault (p_models p) = Some m \<and> m \<in> set (p_models p) \<and> m_isDefault m
      \<and> r = toLowerCase (p_providerId p) @ ''/'' @ m_modelId m"
    by blast
qed

theorem default_model_reference_witness:
  "cfg_model (opencodeConfig [provider_b, provider_a]) = Some ''openai/gpt-4o''
   \<and> find p_isDefault [provider_b, provider_a] = Some provider_a
   \<and> find m_isDefault (p_models provider_a) = Some model_a"
proof -
  have "cfg_model (opencodeConfig [provider_b, provider_a]) \<noteq> None"
    using default_model_reference[of "[provider_b, provider_a]"]
    by (simp add: provider_a_def provider_b_def model_a_def)
  then show ?thesis
    by (simp add: cfg_model_opencodeConfig default_model_def provider_a_def provider_b_def
        model_a_def toLowerCase_def lower_char_def char_of_eq_iff)
qed

subsection \<open>C2: the order of teardown\<close>

text \<open>
  C2, as stated: \<^verbatim>\<open>removeWorkspaceContainer\<close> stops both service containers, removes
  them, removes the network, removes both volumes, and removes a surviving init container
  last. In the code the init container is removed before the network and the volumes
  (it is the first step of \<^verbatim>\<open>cleanupWorkspace\<close>).
\<close>

theorem remove_order_counterexample:
  "calls (snd (removeWorkspaceContainer quiet_env ''w1'' fresh_world))
     = [StopContainer ''code-server-w1'', StopContainer ''opencode-w1'',
        RemoveContainer ''code-server-w1'' True, RemoveContainer ''opencode-w1'' True,
        RemoveContainer ''init-w1'' True,
        RemoveNetwork ''workspace-w1'',
        RemoveVolume ''workspace-w1-data'', RemoveVolume ''workspace-w1-opencode'']
   \<and> remove_order_of_spec ''w1''
     = [StopContainer ''code-server-w1'', StopContainer ''opencode-w1'',
        RemoveContainer ''code-server-w1'' True, RemoveContainer ''opencode-w1'' True,
        RemoveNetwork ''workspace-w1'',
        RemoveVolume ''workspace-w1-data'', RemoveVolume ''workspace-w1-opencode'',
        RemoveContainer ''init-w1'' True]
   \<and> calls (snd (removeWorkspaceContainer quiet_env ''w1'' fresh_world))
     \<noteq> remove_order_of_spec ''w1''"
  by (simp add: removeWorkspaceContainer_apply stopWorkspaceContainer_apply
      cleanupWorkspace_calls cleanup_requests_def frame remove_order_of_spec_def fresh_world_def
      code_server_name_def opencode_name_def init_name_def network_name_def data_volume_def
      opencode_volume_def)

text \<open>
  C2, amended: for every workspace identifier, every state of the runtime and every
  pattern of rejected requests, \<^verbatim>\<open>removeWorkspaceContainer\<close> issues exactly these
  requests, in this order: stop the editor container, stop the agent container, remove
  each of them by force, remove the init container by force, remove the network, remove
  the data volume, remove the agent-state volume. No failure keeps a later request from
  being issued, and the call returns success.
\<close>

theorem remove_order:
  "fst (removeWorkspaceContainer env w s) = Inr Success
   \<and> calls (snd (removeWorkspaceContainer env w s))
     = calls s @
       [StopContainer (code_server_name w), StopContainer (opencode_name w),
        RemoveContainer (code_server_name w) True, RemoveContainer (opencode_name w) True,
        RemoveContainer (init_name w) True,
        RemoveNetwork (network_name w),
        RemoveVolume (data_volume w), RemoveVolume (opencode_volume w)]"
  by (simp add: removeWorkspaceContainer_apply stopWorkspaceContainer_apply
      cleanupWorkspace_calls cleanup_requests_def frame)

subsection \<open>C4: errors of stopping\<close>

text \<open>
  C4, as stated: when both containers' stop calls fail with an error other than
  not-found, \<^verbatim>\<open>stopWorkspaceContainer\<close> raises a fatal error. With the runtime
  unreachable both stop calls fail with that error, and the call returns success.
\<close>

theorem stop_unreachable_counterexample:
  "fst (stopContainer unreachable_env ''code-server-w1'' fresh_world)
     = Inl (Unreachable (StopContainer ''code-server-w1''))
   \<and> fst (stopContainer unreachable_env ''opencode-w1''
            (snd (stopContainer unreachable_env ''code-server-w1'' fresh_world)))
     = Inl (Unreachable (StopContainer ''opencode-w1''))
   \<and> fst (stopWorkspaceContainer unreachable_env ''w1'' fresh_world) = Inr Success"
  by (simp add: stopWorkspaceContainer_apply stopContainer_def issue_apply unreachable_env_def
      quiet_env_def)

text \<open>
  C4, amended: \<^verbatim>\<open>stopWorkspaceContainer\<close> asks the runtime to stop the editor
  container and then the agent container, drops whatever error either call raises
  (already stopped, not found, or any other), and returns success.
\<close>

theorem stop_swallows_every_error:
  "fst (stopWorkspaceContainer env w s) = Inr Success
   \<and> calls (snd (stopWorkspaceContainer env w s))
     = calls s @ [StopContainer (code_server_name w), StopContainer (opencode_name w)]"
  by (simp add: stopWorkspaceContainer_apply frame)

subsection \<open>C7: the agent container's routing labels\<close>

text \<open>
  C7: the agent container's label map (no key of which repeats) holds exactly two router
  rules, one for the host \<^verbatim>\<open>opencode-<id>.<domain>\<close> whose service listens on port
  3001 and one for the different host \<^verbatim>\<open>preview-<id>.<domain>\<close> whose service
  listens on port 3000; it defines one middleware, which sets the response headers
  \<^verbatim>\<open>X-Frame-Options\<close> and \<^verbatim>\<open>Content-Security-Policy\<close> to the empty string; that
  middleware is attached to the preview router and to no other, and the editor
  container's labels define and attach no middleware.
\<close>

theorem agent_routing_labels:
  "c_labels (opencode_container env config skills providers)
     = opencode_labels env (workspaceId config)
   \<and> c_labels (code_server_container env config) = code_server_labels env (workspaceId config)
   \<and> distinct (map fst (opencode_labels env w))
   \<and> router_rules (opencode_labels env w)
     = [(''traefik.http.routers.opencode-'' @ w @ ''.rule'',
           host_rule (''opencode-'' @ w @ ''.'' @ domain env)),
        (''traefik.http.routers.preview-'' @ w @ ''.rule'',
           host_rule (''preview-'' @ w @ ''.'' @ domain env))]
   \<and> host_rule (''opencode-'' @ w @ ''.'' @ domain env)
       \<noteq> host_rule (''preview-'' @ w @ ''.'' @ domain env)
   \<and> map_of (opencode_labels env w) (''traefik.http.routers.opencode-'' @ w @ ''.service'')
       = Some (''opencode-'' @ w)
   \<and> map_of (opencode_labels env w)
         (''traefik.http.services.opencode-'' @ w @ ''.loadbalancer.server.port'')
       = Some ''3001''
   \<and> map_of (opencode_labels env w) (''traefik.http.routers.preview-'' @ w @ ''.service'')
       = Some (''preview-'' @ w)
   \<and> map_of (opencode_labels env w)
         (''traefik.http.services.preview-'' @ w @ ''.loadbalancer.server.port'')
       = Some ''3000''
   \<and> middleware_settings (opencode_labels env w)
     = [(''traefik.http.middlewares.preview-headers-'' @ w
           @ ''.headers.customResponseHeaders.X-Frame-Options'', []),
        (''traefik.http.middlewares.preview-headers-'' @ w
           @ ''.headers.customResponseHeaders.Content-Security-Policy'', [])]
   \<and> middleware_attachments (opencode_labels env w)
     = [(''traefik.http.routers.preview-'' @ w @ ''.middlewares'', ''preview-headers-'' @ w)]
   \<and> middleware_attachments (code_server_labels env w) = []
   \<and> middleware_settings (code_server_labels env w) = []"
proof (intro conjI)
  show "c_labels (opencode_container env config skills providers)
      = opencode_labels env (workspaceId config)"
    by (simp add: opencode_container_def Let_def)
  show "c_labels (code_server_container env config) = code_server_labels env (workspaceId config)"
    by (simp add: code_server_container_def Let_def)
  show "distinct (map fst (opencode_labels env w))"
    by (simp add: opencode_labels_def)
  show "router_rules (opencode_labels env w)
     = [(''traefik.http.routers.opencode-'' @ w @ ''.rule'',
           host_rule (''opencode-'' @ w @ ''.'' @ domain env)),
        (''traefik.http.routers.preview-'' @ w @ ''.rule'',
           host_rule (''preview-'' @ w @ ''.'' @ domain env))]"
    by (simp add: router_rules_def opencode_labels_def suffix_append_long suffix_to_prefix)
  show "host_rule (''opencode-'' @ w @ ''.'' @ domain env)
       \<noteq> host_rule (''preview-'' @ w @ ''.'' @ domain env)"
    by (simp add: host_rule_def)
  show "map_of (opencode_labels env w) (''traefik.http.routers.opencode-'' @ w @ ''.service'')
       = Some (''opencode-'' @ w)"
    by (simp add: opencode_labels_def)
  show "map_of (opencode_labels env w)
         (''traefik.http.services.opencode-'' @ w @ ''.loadbalancer.server.port'')
       = Some ''3001''"
    by (simp add: opencode_labels_def)
  show "map_of (opencode_labels env w) (''traefik.http.routers.preview-'' @ w @ ''.service'')
       = Some (''preview-'' @ w)"
    by (simp add: opencode_labels_def)
  show "map_of (opencode_labels env w)
         (''traefik.http.services.preview-'' @ w @ ''.loadbalancer.server.port'')
       = Some ''3000''"
    by (simp add: opencode_labels_def)
  show "middleware_settings (opencode_labels env w)
     = [(''traefik.http.middlewares.preview-headers-'' @ w
           @ ''.headers.customResponseHeaders.X-Frame-Options'', []),
        (''traefik.http.middlewares.preview-headers-'' @ w
           @ ''.headers.customResponseHeaders.Content-Security-Policy'', [])]"
    by (simp add: middleware_settings_def opencode_labels_def)
  show "middleware_attachments (opencode_labels env w)
     = [(''traefik.http.routers.preview-'' @ w @ ''.middlewares'', ''preview-headers-'' @ w)]"
    by (simp add: middleware_attachments_def opencode_labels_def suffix_append_long
        suffix_to_prefix)
  show "middleware_attachments (code_server_labels env w) = []"
    by (simp add: middleware_attachments_def code_server_labels_def suffix_append_long
        suffix_to_prefix)
  show "middleware_settings (code_server_labels env w) = []"
    by (simp add: middleware_settings_def code_server_labels_def)
qed

subsection \<open>C1: rollback when the editor container cannot be created\<close>




subsection \<open>C3: removing twice\<close>

text \<open>
  C3, as stated: after a second call of \<^verbatim>\<open>removeWorkspaceContainer\<close> no resource of
  the workspace remains. When the runtime rejects the removal of the network, both calls
  return success and the network is still there; the same when a running container of
  another name is attached to the network.
\<close>

theorem teardown_counterexample:
  "(fst (removeWorkspaceContainer network_rejected_env ''w1'' running_world) = Inr Success
    \<and> fst (removeWorkspaceContainer network_rejected_env ''w1''
           (snd (removeWorkspaceContainer network_rejected_env ''w1'' running_world)))
        = Inr Success
    \<and> ''workspace-w1''
        \<in> set (networks (snd (removeWorkspaceContainer network_rejected_env ''w1''
             (snd (removeWorkspaceContainer network_rejected_env ''w1'' running_world)))))
    \<and> \<not> no_resources ''w1''
         (snd (removeWorkspaceContainer network_rejected_env ''w1''
            (snd (removeWorkspaceContainer network_rejected_env ''w1'' running_world)))))
   \<and> (isolated ''w1'' shared_world = False
      \<and> ''workspace-w1''
         \<in> set (networks (snd (removeWorkspaceContainer quiet_env ''w1''
              (snd (removeWorkspaceContainer quiet_env ''w1'' shared_world))))))"
  using teardown_network_rejected teardown_shared_network
  by (intro conjI) simp_all

text \<open>
  C3, amended: for every workspace identifier, world and pattern of rejected requests,
  \<^verbatim>\<open>removeWorkspaceContainer\<close> does not throw, on a first call or on a second one
  after it, and neither do \<^verbatim>\<open>stopWorkspaceContainer\<close> and
  \<^verbatim>\<open>startWorkspaceContainer\<close>. If the runtime answers the six removal requests and
  no container outside the workspace uses its network or volumes, then no container,
  network or volume of the workspace remains after the first call, nor after the second.
  On a world that holds none of the workspace's resources, stop, start and remove succeed
  and leave the containers, networks and volumes as they are.
\<close>

theorem teardown_idempotent:
  "fst (removeWorkspaceContainer env w s) = Inr Success
   \<and> fst (removeWorkspaceContainer env w (snd (removeWorkspaceContainer env w s))) = Inr Success
   \<and> fst (stopWorkspaceContainer env w s) = Inr Success
   \<and> fst (startWorkspaceContainer env w s) = Inr Success
   \<and> (teardown_answered env w \<and> isolated w s \<longrightarrow>
        no_resources w (snd (removeWorkspaceContainer env w s))
        \<and> no_resources w
             (snd (removeWorkspaceContainer env w (snd (removeWorkspaceContainer env w s)))))
   \<and> (no_resources w s \<longrightarrow>
        containers (snd (removeWorkspaceContainer env w s)) = containers s
        \<and> networks (snd (removeWorkspaceContainer env w s)) = networks s
        \<and> volumes (snd (removeWorkspaceContainer env w s)) = volumes s
        \<and> containers (snd (stopWorkspaceContainer env w s)) = containers s
        \<and> containers (snd (startWorkspaceContainer env w s)) = containers s)"
proof -
  have ok: "fst (removeWorkspaceContainer env w t) = Inr Success" for t
    by (simp add: removeWorkspaceContainer_apply)
  have twice: "no_resources w (snd (removeWorkspaceContainer env w s))
      \<and> no_resources w
           (snd (removeWorkspaceContainer env w (snd (removeWorkspaceContainer env w s))))"
    if a: "teardown_answered env w \<and> isolated w s"
  proof -
    have one: "no_resources w (snd (removeWorkspaceContainer env w s))
        \<and> isolated w (snd (removeWorkspaceContainer env w s))"
      using a remove_clears by blast
    then show ?thesis
      using a remove_clears[of env w "snd (removeWorkspaceContainer env w s)"] by blast
  qed
  have absent: "containers (snd (removeWorkspaceContainer env w s)) = containers s
        \<and> networks (snd (removeWorkspaceContainer env w s)) = networks s
        \<and> volumes (snd (removeWorkspaceContainer env w s)) = volumes s
        \<and> containers (snd (stopWorkspaceContainer env w s)) = containers s
        \<and> containers (snd (startWorkspaceContainer env w s)) = containers s"
    if n: "no_resources w s"
    using remove_absent[OF n] stop_absent[OF n] start_absent[OF n] by blast
  have st: "fst (stopWorkspaceContainer env w s) = Inr Success"
    by (simp add: stopWorkspaceContainer_apply)
  have sta: "fst (startWorkspaceContainer env w s) = Inr Success"
    by (simp add: startWorkspaceContainer_apply)
  show ?thesis
    using ok[of s] ok[of "snd (removeWorkspaceContainer env w s)"] st sta twice absent
    by blast
qed

theorem teardown_idempotent_witness:
  "\<not> no_resources ''w1'' running_world
   \<and> no_resources ''w1'' (snd (removeWorkspaceContainer quiet_env ''w1'' running_world))
   \<and> no_resources ''w1''
       (snd (removeWorkspaceContainer quiet_env ''w1''
          (snd (removeWorkspaceContainer quiet_env ''w1'' running_world))))
   \<and> fst (removeWorkspaceContainer quiet_env ''w1''
          (snd (removeWorkspaceContainer quiet_env ''w1'' running_world))) = Inr Success"
proof -
  have ans: "teardown_answered quiet_env ''w1''"
    by (simp add: teardown_answered_def quiet_env_def)
  have iso: "isolated ''w1'' running_world"
    by (simp add: isolated_def running_world_def service_container_def foreign_user_def
        init_name_def code_server_name_def opencode_name_def)
  have before: "\<not> no_resources ''w1'' running_world"
    by (simp add: no_resources_def workspace_networks_def running_world_def network_name_def)
  show ?thesis
    using teardown_idempotent[of quiet_env "''w1''" running_world] ans iso before
    by simp
qed

subsection \<open>C6: the readiness probe\<close>

text \<open>
  C6 says that the probe answers \<^verbatim>\<open>ready: true\<close> whenever the service produces any
  HTTP response, and the comment in the route says the same ("consider any response, even
  error pages, as ready"). A response with status 404 does give \<^verbatim>\<open>ready: true\<close>.
  But the route calls \<^verbatim>\<open>fetch\<close> without \<^verbatim>\<open>redirect: 'manual'\<close>: when the
  service answers with a redirect to a host that cannot be reached, \<^verbatim>\<open>fetch\<close>
  follows it, the second request fails, \<^verbatim>\<open>fetch\<close> rejects, and the route answers
  \<^verbatim>\<open>ready: false\<close> although the service has responded.
\<close>

theorem probe_redirect_unreachable:
  "redirecting_net (probe_url ''opencode'' ''w1'') = Answers 302 (Some ''http://gone.invalid/'') 5
   \<and> redirecting_net ''http://gone.invalid/'' = Fails 1
   \<and> fetch redirecting_net (probe_url ''opencode'' ''w1'') = Rejected 6
   \<and> GET (SessionUser user1) (Some ''opencode'') (Found ''w1'') redirecting_net = JsonReady False
   \<and> GET (SessionUser user1) (Some ''opencode'') (Found ''w1'') not_found_net = JsonReady True"
  by code_simp

theorem probe_redirect_unreachable_witness:
  "GET (SessionUser user1) (Some ''opencode'') (Found ''w1'') redirecting_net = JsonReady False"
  using probe_redirect_unreachable by simp

subsection \<open>C8: the parallel pulls\<close>




end
